theory Spec2Isabelle
  imports Main "HOL-Library.Multiset"
begin

section \<open>Data model (chats/models.py)\<close>

text \<open>
  Primary keys and the integers of a request payload are Python integers; a timestamp is
  a reading of the wall clock, kept as an integer number of ticks. A request reads the
  clock once for every field that is stamped (\<open>auto_now_add\<close>, \<open>auto_now\<close>): the
  \<open>n\<close>-th reading made while a request is served is \<open>clk n\<close>.
\<close>

type_synonym time = int
type_synonym clock = "nat \<Rightarrow> time"

record user =
  user_id :: int
  username :: string

text \<open>
  \<open>participants\<close> is the many-to-many field of the class: a set of user ids, which
  \<open>Conversation.save\<close> never writes.
\<close>

record conversation =
  conv_id :: int
  participants :: "int set"
  created_at :: time
  updated_at :: time

record message =
  msg_id :: int
  sender :: int
  conversation :: int
  content :: string
  timestamp :: time
  is_read :: bool

text \<open>The tables, each in insertion order.\<close>

record db =
  users :: "user list"
  conversations :: "conversation list"
  messages :: "message list"

datatype exn = ValidationError | Http404 | DoesNotExist | IntegrityError

datatype body =
    Dict "(string \<times> string) list"
  | Message_data message
  | Message_list "message list"
  | Conversation_data conversation "message list"

datatype response = Response (data: body) (status_code: nat)

abbreviation HTTP_200_OK :: nat where "HTTP_200_OK \<equiv> 200"
abbreviation HTTP_201_CREATED :: nat where "HTTP_201_CREATED \<equiv> 201"
abbreviation HTTP_400_BAD_REQUEST :: nat where "HTTP_400_BAD_REQUEST \<equiv> 400"
abbreviation HTTP_403_FORBIDDEN :: nat where "HTTP_403_FORBIDDEN \<equiv> 403"
abbreviation HTTP_404_NOT_FOUND :: nat where "HTTP_404_NOT_FOUND \<equiv> 404"

text \<open>
  Python's truth value of \<open>request.data.get(key)\<close> for an integer payload value: an
  absent key and the number 0 are false.
\<close>

definition truthy :: "int option \<Rightarrow> bool" where
  "truthy v = (case v of None \<Rightarrow> False | Some n \<Rightarrow> n \<noteq> 0)"

text \<open>The next value of an auto-increment primary key.\<close>

definition new_pk :: "int list \<Rightarrow> int" where
  "new_pk ids = Max (insert 0 (set ids)) + 1"

definition user_ids :: "db \<Rightarrow> int set" where
  "user_ids d = user_id ` set (users d)"

text \<open>\<open>User.objects.get(id=i)\<close>: \<open>None\<close> stands for \<open>User.DoesNotExist\<close>.\<close>

definition User_objects_get :: "db \<Rightarrow> int \<Rightarrow> user option" where
  "User_objects_get d i = find (\<lambda>usr. user_id usr = i) (users d)"

text \<open>\<open>Meta.ordering = ['-updated_at']\<close> and \<open>['-timestamp']\<close>; rows with equal keys
  stay in table order, where the database gives no promise.\<close>

definition order_by_updated_at_desc :: "conversation list \<Rightarrow> conversation list" where
  "order_by_updated_at_desc cs = sort_key (\<lambda>c. - updated_at c) cs"

definition order_by_timestamp_desc :: "message list \<Rightarrow> message list" where
  "order_by_timestamp_desc ms = sort_key (\<lambda>m. - timestamp m) ms"

text \<open>Writes to the row of one conversation.\<close>

definition update_conversation :: "int \<Rightarrow> (conversation \<Rightarrow> conversation) \<Rightarrow> db \<Rightarrow> db" where
  "update_conversation cid f d =
     d\<lparr>conversations := map (\<lambda>c. if conv_id c = cid then f c else c) (conversations d)\<rparr>"

text \<open>\<open>conversation.participants.add(user)\<close>, \<open>.remove(user)\<close> and \<open>.set(users)\<close>.\<close>

definition participants_add :: "int \<Rightarrow> int \<Rightarrow> db \<Rightarrow> db" where
  "participants_add cid uid d =
     update_conversation cid (\<lambda>c. c\<lparr>participants := insert uid (participants c)\<rparr>) d"

definition participants_remove :: "int \<Rightarrow> int \<Rightarrow> db \<Rightarrow> db" where
  "participants_remove cid uid d =
     update_conversation cid (\<lambda>c. c\<lparr>participants := participants c - {uid}\<rparr>) d"

definition participants_set :: "int \<Rightarrow> int set \<Rightarrow> db \<Rightarrow> db" where
  "participants_set cid uids d =
     update_conversation cid (\<lambda>c. c\<lparr>participants := uids\<rparr>) d"

text \<open>\<open>Conversation.save()\<close> of a stored conversation: \<open>auto_now\<close> stamps
  \<open>updated_at\<close> with the clock reading \<open>t\<close>, whatever the stored value is.\<close>

definition Conversation_save :: "time \<Rightarrow> int \<Rightarrow> db \<Rightarrow> db" where
  "Conversation_save t cid d = update_conversation cid (\<lambda>c. c\<lparr>updated_at := t\<rparr>) d"

text \<open>\<open>super().save()\<close> of a message: an UPDATE of the row with its primary key, an
  INSERT when there is none.\<close>

definition Model_save_message :: "message \<Rightarrow> db \<Rightarrow> db" where
  "Model_save_message m d =
     (if msg_id m \<in> set (map msg_id (messages d))
      then d\<lparr>messages := map (\<lambda>x. if msg_id x = msg_id m then m else x) (messages d)\<rparr>
      else d\<lparr>messages := messages d @ [m]\<rparr>)"

text \<open>\<open>Message.save\<close>: the row is written, then the conversation of the message is
  saved, at clock reading \<open>t\<close>.\<close>

definition Message_save :: "time \<Rightarrow> message \<Rightarrow> db \<Rightarrow> db" where
  "Message_save t m d = Conversation_save t (conversation m) (Model_save_message m d)"

section \<open>Conversations (ConversationViewSet, ConversationSerializer)\<close>

text \<open>\<open>Conversation.objects.filter(participants=request.user)\<close>, in the model's
  default order; \<open>u\<close> is the id of the authenticated user.\<close>

definition ConversationViewSet_get_queryset :: "db \<Rightarrow> int \<Rightarrow> conversation list" where
  "ConversationViewSet_get_queryset d u =
     order_by_updated_at_desc (filter (\<lambda>c. u \<in> participants c) (conversations d))"

text \<open>\<open>self.get_object()\<close>: the row of the view's queryset with primary key \<open>pk\<close>, or
  \<open>Http404\<close>.\<close>

definition ConversationViewSet_get_object :: "db \<Rightarrow> int \<Rightarrow> int \<Rightarrow> exn + conversation" where
  "ConversationViewSet_get_object d u pk =
     (case find (\<lambda>c. conv_id c = pk) (ConversationViewSet_get_queryset d u) of
        None \<Rightarrow> Inl Http404
      | Some c \<Rightarrow> Inr c)"

text \<open>\<open>Conversation.objects.get(id=cid, participants=request.user)\<close>: \<open>None\<close> stands
  for \<open>Conversation.DoesNotExist\<close>.\<close>

definition Conversation_objects_get :: "db \<Rightarrow> int \<Rightarrow> int \<Rightarrow> conversation option" where
  "Conversation_objects_get d cid u =
     find (\<lambda>c. conv_id c = cid \<and> u \<in> participants c) (conversations d)"

text \<open>\<open>instance.messages.all()[:50]\<close> of \<open>ConversationSerializer.to_representation\<close>.\<close>

definition recent_messages :: "db \<Rightarrow> int \<Rightarrow> message list" where
  "recent_messages d cid =
     take 50 (order_by_timestamp_desc (filter (\<lambda>m. conversation m = cid) (messages d)))"

text \<open>
  \<open>ConversationSerializer.create\<close>. \<open>participant_ids\<close> is the validated list
  (\<open>[]\<close> when the payload has none); \<open>request\<close> is the user of the request in the
  serializer's context, \<open>None\<close> when the context has no request. The result is the
  new database and the new conversation's key.
\<close>

definition ConversationSerializer_create ::
  "db \<Rightarrow> clock \<Rightarrow> int option \<Rightarrow> int list \<Rightarrow> db \<times> int" where
  "ConversationSerializer_create d clk request participant_ids =
     (let cid = new_pk (map conv_id (conversations d));
          c = \<lparr>conv_id = cid, participants = {}, created_at = clk 0, updated_at = clk 1\<rparr>;
          d1 = d\<lparr>conversations := conversations d @ [c]\<rparr>;
          d2 = (if participant_ids \<noteq> []
                then participants_set cid
                       (user_id ` set (filter (\<lambda>usr. user_id usr \<in> set participant_ids) (users d))) d1
                else d1);
          d3 = (case request of None \<Rightarrow> d2 | Some request_user \<Rightarrow> participants_add cid request_user d2)
      in (d3, cid))"

text \<open>\<open>ConversationViewSet.create\<close> for the authenticated user \<open>u\<close>:
  \<open>participant_ids\<close> is the payload's list of integers, if it has one. The response
  shows the stored conversation.\<close>

definition ConversationViewSet_create ::
  "db \<Rightarrow> clock \<Rightarrow> int \<Rightarrow> int list option \<Rightarrow> exn + db \<times> response" where
  "ConversationViewSet_create d clk u participant_ids =
     (case ConversationSerializer_create d clk (Some u)
             (case participant_ids of None \<Rightarrow> [] | Some l \<Rightarrow> l) of
        (d', cid) \<Rightarrow>
          (case find (\<lambda>c. conv_id c = cid) (conversations d') of
             None \<Rightarrow> Inl DoesNotExist
           | Some c \<Rightarrow> Inr (d', Response (Conversation_data c (recent_messages d' cid)) HTTP_201_CREATED)))"

definition add_participant :: "db \<Rightarrow> int \<Rightarrow> int \<Rightarrow> int option \<Rightarrow> exn + db \<times> response" where
  "add_participant d u pk uid =
     (case ConversationViewSet_get_object d u pk of
        Inl e \<Rightarrow> Inl e
      | Inr conv \<Rightarrow>
          (case uid of
             None \<Rightarrow> Inr (d, Response (Dict [(''error'', ''user_id is required'')]) HTTP_400_BAD_REQUEST)
           | Some i \<Rightarrow>
               if i = 0
               then Inr (d, Response (Dict [(''error'', ''user_id is required'')]) HTTP_400_BAD_REQUEST)
               else (case User_objects_get d i of
                       None \<Rightarrow> Inr (d, Response (Dict [(''error'', ''User not found'')]) HTTP_404_NOT_FOUND)
                     | Some usr \<Rightarrow>
                         Inr (participants_add (conv_id conv) (user_id usr) d,
                              Response (Dict [(''message'',
                                  ''User '' @ username usr @ '' added to conversation'')]) HTTP_200_OK))))"

definition remove_participant :: "db \<Rightarrow> int \<Rightarrow> int \<Rightarrow> int option \<Rightarrow> exn + db \<times> response" where
  "remove_participant d u pk uid =
     (case ConversationViewSet_get_object d u pk of
        Inl e \<Rightarrow> Inl e
      | Inr conv \<Rightarrow>
          (case uid of
             None \<Rightarrow> Inr (d, Response (Dict [(''error'', ''user_id is required'')]) HTTP_400_BAD_REQUEST)
           | Some i \<Rightarrow>
               if i = 0
               then Inr (d, Response (Dict [(''error'', ''user_id is required'')]) HTTP_400_BAD_REQUEST)
               else (case User_objects_get d i of
                       None \<Rightarrow> Inr (d, Response (Dict [(''error'', ''User not found'')]) HTTP_404_NOT_FOUND)
                     | Some usr \<Rightarrow>
                         Inr (participants_remove (conv_id conv) (user_id usr) d,
                              Response (Dict [(''message'',
                                  ''User '' @ username usr @ '' removed from conversation'')]) HTTP_200_OK))))"

section \<open>Messages (MessageViewSet, MessageSerializer)\<close>

text \<open>
  The keys of a message payload and of the serializer's \<open>validated_data\<close>, each
  present or absent. \<open>sender\<close> is read-only in the serializer: it is never taken
  from the payload and enters \<open>validated_data\<close> only through \<open>save(sender=...)\<close>.
\<close>

record message_dict =
  key_sender :: "int option"
  key_sender_id :: "int option"
  key_conversation :: "int option"
  key_content :: "string option"
  key_is_read :: "bool option"

text \<open>The framework's text field for \<open>content\<close>: the cleaned text, or \<open>None\<close> for a
  text it rejects (one that is blank).\<close>

type_synonym char_field = "string \<Rightarrow> string option"

text \<open>
  \<open>serializer.is_valid(raise_exception=True)\<close> for the fields of
  \<open>MessageSerializer.Meta\<close>: \<open>conversation\<close> must be the key of a stored conversation,
  \<open>content\<close> must be accepted by the text field, and both are required unless the
  update is partial; \<open>sender_id\<close> and \<open>is_read\<close> are optional and writable.
\<close>

definition MessageSerializer_is_valid ::
  "db \<Rightarrow> char_field \<Rightarrow> bool \<Rightarrow> message_dict \<Rightarrow> exn + message_dict" where
  "MessageSerializer_is_valid d cf partial payload =
     (if (case key_conversation payload of
            None \<Rightarrow> \<not> partial
          | Some cid \<Rightarrow> cid \<notin> set (map conv_id (conversations d)))
      then Inl ValidationError
      else if (case key_content payload of None \<Rightarrow> \<not> partial | Some txt \<Rightarrow> cf txt = None)
      then Inl ValidationError
      else Inr (payload\<lparr>key_sender := None,
                  key_content := (case key_content payload of None \<Rightarrow> None | Some txt \<Rightarrow> cf txt)\<rparr>))"

text \<open>
  \<open>super().create(validated_data)\<close>, that is \<open>Message.objects.create\<close> with the
  keys of \<open>validated_data\<close> as keyword arguments: the model takes \<open>sender\<close> first
  and then assigns a \<open>sender_id\<close> that is still among the keys, so that one wins. The
  INSERT needs a conversation, a content and a stored user as sender; the row gets the
  next key, \<open>timestamp = clk 0\<close> by \<open>auto_now_add\<close>, and \<open>Message.save\<close> stamps
  the conversation at \<open>clk 1\<close>.
\<close>

definition ModelSerializer_create :: "db \<Rightarrow> clock \<Rightarrow> message_dict \<Rightarrow> exn + db \<times> message" where
  "ModelSerializer_create d clk vd =
     (case (key_conversation vd, key_content vd,
            (case key_sender_id vd of Some sid \<Rightarrow> Some sid | None \<Rightarrow> key_sender vd)) of
        (Some cid, Some txt, Some sndr) \<Rightarrow>
          if sndr \<notin> user_ids d then Inl IntegrityError
          else (let m = \<lparr>msg_id = new_pk (map msg_id (messages d)), sender = sndr,
                          conversation = cid, content = txt, timestamp = clk 0,
                          is_read = (case key_is_read vd of None \<Rightarrow> False | Some b \<Rightarrow> b)\<rparr>
                in Inr (Message_save (clk 1) m d, m))
      | _ \<Rightarrow> Inl IntegrityError)"

text \<open>\<open>MessageSerializer.create\<close>; \<open>request\<close> is the user of the request in the
  serializer's context, \<open>None\<close> when the context has no request.\<close>

definition MessageSerializer_create ::
  "db \<Rightarrow> clock \<Rightarrow> int option \<Rightarrow> message_dict \<Rightarrow> exn + db \<times> message" where
  "MessageSerializer_create d clk request vd =
     (if request \<noteq> None \<and> \<not> truthy (key_sender_id vd)
      then ModelSerializer_create d clk (vd\<lparr>key_sender := request\<rparr>)
      else if truthy (key_sender_id vd)
      then (case key_sender_id vd of
              None \<Rightarrow> ModelSerializer_create d clk vd
            | Some sid \<Rightarrow>
                (case User_objects_get d sid of
                   None \<Rightarrow> Inl DoesNotExist
                 | Some usr \<Rightarrow>
                     ModelSerializer_create d clk
                       (vd\<lparr>key_sender := Some (user_id usr), key_sender_id := None\<rparr>)))
      else ModelSerializer_create d clk vd)"

text \<open>\<open>conversation__participants=user\<close>: the conversation with key \<open>cid\<close> has
  \<open>u\<close> among its participants.\<close>

definition conversation_has_participant :: "db \<Rightarrow> int \<Rightarrow> int \<Rightarrow> bool" where
  "conversation_has_participant d u cid =
     list_ex (\<lambda>c. conv_id c = cid \<and> u \<in> participants c) (conversations d)"

text \<open>\<open>MessageViewSet.get_queryset\<close>; \<open>q\<close> is the query parameter
  \<open>conversation_id\<close>, \<open>None\<close> when it is absent or empty.\<close>

definition MessageViewSet_get_queryset :: "db \<Rightarrow> int \<Rightarrow> int option \<Rightarrow> message list" where
  "MessageViewSet_get_queryset d u q =
     (let queryset = filter (\<lambda>m. conversation_has_participant d u (conversation m)) (messages d)
      in order_by_timestamp_desc
           (case q of None \<Rightarrow> queryset
            | Some cid \<Rightarrow> filter (\<lambda>m. conversation m = cid) queryset))"

definition MessageViewSet_get_object :: "db \<Rightarrow> int \<Rightarrow> int option \<Rightarrow> int \<Rightarrow> exn + message" where
  "MessageViewSet_get_object d u q pk =
     (case find (\<lambda>m. msg_id m = pk) (MessageViewSet_get_queryset d u q) of
        None \<Rightarrow> Inl Http404
      | Some m \<Rightarrow> Inr m)"

text \<open>The \<open>list\<close> action that \<open>MessageViewSet\<close> has as a \<open>ModelViewSet\<close>: the
  view's queryset, unpaginated.\<close>

definition MessageViewSet_list :: "db \<Rightarrow> int \<Rightarrow> int option \<Rightarrow> response" where
  "MessageViewSet_list d u q = Response (Message_list (MessageViewSet_get_queryset d u q)) HTTP_200_OK"

text \<open>\<open>MessageViewSet.create\<close> for the authenticated user \<open>u\<close>.\<close>

definition MessageViewSet_create ::
  "db \<Rightarrow> char_field \<Rightarrow> clock \<Rightarrow> int \<Rightarrow> message_dict \<Rightarrow> exn + db \<times> response" where
  "MessageViewSet_create d cf clk u payload =
     (if truthy (key_conversation payload)
         \<and> (case key_conversation payload of
               None \<Rightarrow> False
             | Some cid \<Rightarrow> Conversation_objects_get d cid u = None)
      then Inr (d, Response (Dict [(''error'', ''Conversation not found or you are not a participant'')])
                     HTTP_404_NOT_FOUND)
      else (case MessageSerializer_is_valid d cf False payload of
              Inl e \<Rightarrow> Inl e
            | Inr vd \<Rightarrow>
                (case MessageSerializer_create d clk (Some u) (vd\<lparr>key_sender := Some u\<rparr>) of
                   Inl e \<Rightarrow> Inl e
                 | Inr (d', m) \<Rightarrow> Inr (d', Response (Message_data m) HTTP_201_CREATED))))"

text \<open>\<open>MessageViewSet.mark_as_read\<close>: \<open>message.save()\<close> is \<open>Message.save\<close>, with
  one reading of the clock.\<close>

definition mark_as_read :: "db \<Rightarrow> clock \<Rightarrow> int \<Rightarrow> int option \<Rightarrow> int \<Rightarrow> exn + db \<times> response" where
  "mark_as_read d clk u q pk =
     (case MessageViewSet_get_object d u q pk of
        Inl e \<Rightarrow> Inl e
      | Inr m \<Rightarrow>
          Inr (Message_save (clk 0) (m\<lparr>is_read := True\<rparr>) d,
               Response (Dict [(''message'', ''Message marked as read'')]) HTTP_200_OK))"

text \<open>\<open>MessageViewSet.mark_conversation_as_read\<close>: the queryset's \<open>update\<close> writes
  the rows without \<open>Message.save\<close>, and its row count is dropped.\<close>

definition mark_conversation_as_read :: "db \<Rightarrow> int \<Rightarrow> int option \<Rightarrow> db \<times> response" where
  "mark_conversation_as_read d u conversation_id =
     (if \<not> truthy conversation_id
      then (d, Response (Dict [(''error'', ''conversation_id is required'')]) HTTP_400_BAD_REQUEST)
      else (case conversation_id of
              None \<Rightarrow> (d, Response (Dict [(''error'', ''conversation_id is required'')]) HTTP_400_BAD_REQUEST)
            | Some cid \<Rightarrow>
                (case Conversation_objects_get d cid u of
                   None \<Rightarrow>
                     (d, Response (Dict [(''error'', ''Conversation not found or you are not a participant'')])
                           HTTP_404_NOT_FOUND)
                 | Some conv \<Rightarrow>
                     (d\<lparr>messages :=
                          map (\<lambda>m. if conversation m = conv_id conv \<and> sender m \<noteq> u
                                   then m\<lparr>is_read := True\<rparr> else m) (messages d)\<rparr>,
                      Response (Dict [(''message'', ''All messages in conversation marked as read'')])
                        HTTP_200_OK))))"

text \<open>
  \<open>ModelSerializer.update\<close>, which \<open>MessageSerializer\<close> does not override: every key
  of \<open>validated_data\<close> is assigned to the stored message.
\<close>

definition ModelSerializer_update :: "message \<Rightarrow> message_dict \<Rightarrow> message" where
  "ModelSerializer_update m vd =
     m\<lparr>sender := (case key_sender_id vd of None \<Rightarrow> sender m | Some sid \<Rightarrow> sid),
       conversation := (case key_conversation vd of None \<Rightarrow> conversation m | Some cid \<Rightarrow> cid),
       content := (case key_content vd of None \<Rightarrow> content m | Some txt \<Rightarrow> txt),
       is_read := (case key_is_read vd of None \<Rightarrow> is_read m | Some b \<Rightarrow> b)\<rparr>"

text \<open>
  The \<open>partial_update\<close> action (PATCH on one message) that \<open>MessageViewSet\<close> has as a
  \<open>ModelViewSet\<close>: the message comes from \<open>get_object\<close>, the payload is validated
  as a partial one, \<open>ModelSerializer.update\<close> assigns its keys and \<open>Message.save\<close>
  writes the row; the UPDATE needs a stored user as sender.
\<close>

definition MessageViewSet_partial_update ::
  "db \<Rightarrow> char_field \<Rightarrow> clock \<Rightarrow> int \<Rightarrow> int option \<Rightarrow> int \<Rightarrow> message_dict \<Rightarrow> exn + db \<times> response" where
  "MessageViewSet_partial_update d cf clk u q pk payload =
     (case MessageViewSet_get_object d u q pk of
        Inl e \<Rightarrow> Inl e
      | Inr m \<Rightarrow>
          (case MessageSerializer_is_valid d cf True payload of
             Inl e \<Rightarrow> Inl e
           | Inr vd \<Rightarrow>
               (let m' = ModelSerializer_update m vd
                in if sender m' \<notin> user_ids d then Inl IntegrityError
                   else Inr (Message_save (clk 0) m' d, Response (Message_data m') HTTP_200_OK))))"

text \<open>
  What the database engine keeps true of the tables: primary keys are unique and
  positive (they come from an auto-increment sequence), and the foreign keys of a message
  point to stored rows.
\<close>

definition wf_db :: "db \<Rightarrow> bool" where
  "wf_db d =
     (distinct (map user_id (users d)) \<and> distinct (map conv_id (conversations d))
      \<and> distinct (map msg_id (messages d))
      \<and> list_all (\<lambda>usr. 0 < user_id usr) (users d)
      \<and> list_all (\<lambda>c. 0 < conv_id c) (conversations d)
      \<and> list_all (\<lambda>m. 0 < msg_id m) (messages d)
      \<and> list_all (\<lambda>m. sender m \<in> user_ids d \<and> conversation m \<in> set (map conv_id (conversations d)))
            (messages d))"

text \<open>The number of messages that are unread in \<open>d\<close> and read in \<open>d'\<close>, row by row.\<close>

definition flipped :: "db \<Rightarrow> db \<Rightarrow> nat" where
  "flipped d d' =
     length (filter (\<lambda>(m, m'). \<not> is_read m \<and> is_read m') (zip (messages d) (messages d')))"

text \<open>Every message stored in \<open>d\<close> is still stored in \<open>d'\<close>, at its row and under
  its key, and is read there if it was read in \<open>d\<close>.\<close>

definition read_kept :: "db \<Rightarrow> db \<Rightarrow> bool" where
  "read_kept d d' =
     (length (messages d) \<le> length (messages d')
      \<and> list_all2 (\<lambda>m m'. msg_id m' = msg_id m \<and> (is_read m \<longrightarrow> is_read m'))
            (messages d) (take (length (messages d)) (messages d')))"

text \<open>The conversation \<open>c\<close> of \<open>d\<close> is stored unchanged in \<open>d'\<close>, with the same
  messages.\<close>

definition untouched :: "db \<Rightarrow> db \<Rightarrow> conversation \<Rightarrow> bool" where
  "untouched d d' c =
     (c \<in> set (conversations d')
      \<and> filter (\<lambda>m. conversation m = conv_id c) (messages d')
          = filter (\<lambda>m. conversation m = conv_id c) (messages d))"

section \<open>A small database for concrete runs\<close>

text \<open>
  Alice (1) and Bob (2) share conversation 1, where each has sent one message; Carol (3)
  is alone in conversation 2. The clock \<open>clock_from t\<close> reads \<open>t\<close>, \<open>t + 1\<close>, ...;
  the text field \<open>accept_nonblank\<close> rejects the empty text only.
\<close>

definition clock_from :: "time \<Rightarrow> clock" where
  "clock_from t n = t + int n"

definition accept_nonblank :: char_field where
  "accept_nonblank txt = (if txt = [] then None else Some txt)"

definition db0 :: db where
  "db0 = \<lparr>users = [\<lparr>user_id = 1, username = ''alice''\<rparr>, \<lparr>user_id = 2, username = ''bob''\<rparr>,
                   \<lparr>user_id = 3, username = ''carol''\<rparr>],
          conversations = [\<lparr>conv_id = 1, participants = {1, 2}, created_at = 1, updated_at = 5\<rparr>,
                           \<lparr>conv_id = 2, participants = {3}, created_at = 2, updated_at = 3\<rparr>],
          messages = [\<lparr>msg_id = 1, sender = 1, conversation = 1, content = ''hi'', timestamp = 4, is_read = False\<rparr>,
                      \<lparr>msg_id = 2, sender = 2, conversation = 1, content = ''hello'', timestamp = 5, is_read = False\<rparr>,
                      \<lparr>msg_id = 3, sender = 3, conversation = 2, content = ''memo'', timestamp = 3, is_read = True\<rparr>]\<rparr>"

section \<open>Facts about keys and rows\<close>

text \<open>The definitions that a run on the small database unfolds.\<close>

lemmas run_defs = db0_def clock_from_def accept_nonblank_def truthy_def new_pk_def user_ids_def
  User_objects_get_def order_by_updated_at_desc_def order_by_timestamp_desc_def update_conversation_def
  participants_add_def participants_remove_def participants_set_def Conversation_save_def
  Model_save_message_def Message_save_def ConversationViewSet_get_queryset_def
  ConversationViewSet_get_object_def Conversation_objects_get_def recent_messages_def
  ConversationSerializer_create_def ConversationViewSet_create_def add_participant_def
  remove_participant_def MessageSerializer_is_valid_def ModelSerializer_create_def
  MessageSerializer_create_def conversation_has_participant_def MessageViewSet_get_queryset_def
  MessageViewSet_get_object_def MessageViewSet_create_def mark_as_read_def Let_def

lemma new_pk_fresh: "new_pk ids \<notin> set ids"
proof
  assume "new_pk ids \<in> set ids"
  then have "new_pk ids \<le> Max (insert 0 (set ids))" by simp
  then show False by (simp add: new_pk_def)
qed

lemma new_pk_fresh_row: "x \<in> set xs \<Longrightarrow> f x \<noteq> new_pk (map f xs)"
  using new_pk_fresh [of "map f xs"] by (metis imageI set_map)

lemma find_snoc_fresh:
  "(\<And>x. x \<in> set xs \<Longrightarrow> \<not> P x) \<Longrightarrow> P y \<Longrightarrow> find P (xs @ [y]) = Some y"
  by (induction xs) auto

lemma map_other_rows:
  "(\<And>c. c \<in> set cs \<Longrightarrow> conv_id c \<noteq> cid) \<Longrightarrow>
     map (\<lambda>c. if conv_id c = cid then f c else c) cs = cs"
  by (induction cs) auto

lemma update_conversation_snoc:
  "(\<And>c. c \<in> set cs \<Longrightarrow> conv_id c \<noteq> cid) \<Longrightarrow> conv_id c0 = cid \<Longrightarrow>
     update_conversation cid f (d\<lparr>conversations := cs @ [c0]\<rparr>) = d\<lparr>conversations := cs @ [f c0]\<rparr>"
  by (simp add: update_conversation_def map_other_rows)

lemma ConversationSerializer_create_rows:
  "ConversationSerializer_create d clk (Some u) L =
     (d\<lparr>conversations := conversations d @
          [\<lparr>conv_id = new_pk (map conv_id (conversations d)),
            participants = insert u {i. i \<in> set L \<and> i \<in> user_ids d},
            created_at = clk 0, updated_at = clk 1\<rparr>]\<rparr>,
      new_pk (map conv_id (conversations d)))"
proof -
  define cid where "cid = new_pk (map conv_id (conversations d))"
  have fresh: "\<And>c. c \<in> set (conversations d) \<Longrightarrow> conv_id c \<noteq> cid"
    unfolding cid_def by (rule new_pk_fresh_row)
  have resolved: "L \<noteq> [] \<Longrightarrow>
      user_id ` set (filter (\<lambda>usr. user_id usr \<in> set L) (users d)) = {i. i \<in> set L \<and> i \<in> user_ids d}"
    by (auto simp: user_ids_def)
  show ?thesis
  proof (cases "L = []")
    case True
    then show ?thesis
      by (simp add: ConversationSerializer_create_def Let_def participants_add_def
            update_conversation_snoc [OF fresh] cid_def [symmetric])
  next
    case False
    then show ?thesis
      using resolved
      by (simp add: ConversationSerializer_create_def Let_def participants_add_def participants_set_def
            update_conversation_snoc [OF fresh] cid_def [symmetric] del: set_filter)
  qed
qed

lemma User_objects_get_Some:
  "i \<in> user_ids d \<Longrightarrow> \<exists>usr. User_objects_get d i = Some usr \<and> user_id usr = i"
  unfolding User_objects_get_def user_ids_def
  by (cases "find (\<lambda>usr. user_id usr = i) (users d)") (auto simp: find_None_iff find_Some_iff)

lemma Conversation_objects_get_Some:
  "Conversation_objects_get d cid u = Some c \<Longrightarrow>
     c \<in> set (conversations d) \<and> conv_id c = cid \<and> u \<in> participants c"
  unfolding Conversation_objects_get_def by (auto simp: find_Some_iff)

lemma MessageSerializer_create_sender:
  "MessageSerializer_create d clk (Some u) (vd\<lparr>key_sender := Some u\<rparr>) = Inr (d', m) \<Longrightarrow>
     sender m = (case key_sender_id vd of None \<Rightarrow> u | Some sid \<Rightarrow> sid)"
  unfolding MessageSerializer_create_def ModelSerializer_create_def User_objects_get_def truthy_def Let_def
  by (auto split: option.splits if_splits simp: find_Some_iff)

lemma Model_save_message_new:
  "msg_id m = new_pk (map msg_id (messages d)) \<Longrightarrow>
     Model_save_message m d = d\<lparr>messages := messages d @ [m]\<rparr>"
  using new_pk_fresh [of "map msg_id (messages d)"] by (simp add: Model_save_message_def)

lemma messages_update_conversation: "messages (update_conversation cid f d) = messages d"
  by (simp add: update_conversation_def)

lemma users_update_conversation: "users (update_conversation cid f d) = users d"
  by (simp add: update_conversation_def)

lemma MessageSerializer_create_ok:
  assumes "key_conversation vd = Some cid" "key_content vd = Some txt"
      and "(case key_sender_id vd of None \<Rightarrow> u | Some sid \<Rightarrow> sid) \<in> user_ids d"
  shows "\<exists>d' m. MessageSerializer_create d clk (Some u) (vd\<lparr>key_sender := Some u\<rparr>) = Inr (d', m)
           \<and> m \<in> set (messages d')"
proof (cases "key_sender_id vd")
  case None
  with assms show ?thesis
    by (simp add: MessageSerializer_create_def ModelSerializer_create_def truthy_def Let_def
          Message_save_def Conversation_save_def messages_update_conversation Model_save_message_new)
next
  case (Some sid)
  with assms have "sid \<in> user_ids d" by simp
  then obtain usr where "User_objects_get d sid = Some usr" "user_id usr = sid"
    using User_objects_get_Some by blast
  with Some assms show ?thesis
    by (auto simp: MessageSerializer_create_def ModelSerializer_create_def truthy_def Let_def
          Message_save_def Conversation_save_def messages_update_conversation Model_save_message_new)
qed

section \<open>Listing conversations\<close>

lemma sorted_order_by_updated_at_desc:
  "sorted_wrt (\<lambda>a b. updated_at b \<le> updated_at a) (order_by_updated_at_desc cs)"
proof -
  have "sorted (map (\<lambda>c. - updated_at c) (sort_key (\<lambda>c. - updated_at c) cs))"
    by (rule sorted_sort_key)
  then show ?thesis
    by (simp add: order_by_updated_at_desc_def sorted_map)
qed

text \<open>
  C8. For every user \<open>u\<close>, the conversation list of \<open>u\<close> holds exactly the stored
  conversations that have \<open>u\<close> among their participants (each as often as it is stored),
  most recently updated first.
\<close>

theorem list_conversations_exact_and_ordered:
  "set (ConversationViewSet_get_queryset d u) = {c. c \<in> set (conversations d) \<and> u \<in> participants c}
   \<and> mset (ConversationViewSet_get_queryset d u) = mset (filter (\<lambda>c. u \<in> participants c) (conversations d))
   \<and> sorted_wrt (\<lambda>a b. updated_at b \<le> updated_at a) (ConversationViewSet_get_queryset d u)"
  unfolding ConversationViewSet_get_queryset_def
  using sorted_order_by_updated_at_desc [of "filter (\<lambda>c. u \<in> participants c) (conversations d)"]
  by (auto simp: order_by_updated_at_desc_def)

section \<open>Creating a conversation\<close>

text \<open>
  C7. A create-conversation request of user \<open>u\<close> with the participant id list \<open>L\<close>
  always succeeds, and the participants of the stored conversation are exactly the ids
  of \<open>L\<close> that belong to stored users, together with \<open>u\<close>: unknown ids are dropped
  without an error, and the same request with \<open>u\<close> added to \<open>L\<close> gives the same
  participants.
\<close>

theorem create_conversation_participants:
  "\<exists>d' c ms d'' c' ms'.
      ConversationViewSet_create d clk u (Some L)
        = Inr (d', Response (Conversation_data c ms) HTTP_201_CREATED)
    \<and> find (\<lambda>x. conv_id x = conv_id c) (conversations d') = Some c
    \<and> participants c = {i. i \<in> set L \<and> i \<in> user_ids d} \<union> {u}
    \<and> ConversationViewSet_create d clk u (Some (u # L))
        = Inr (d'', Response (Conversation_data c' ms') HTTP_201_CREATED)
    \<and> participants c' = participants c"
proof -
  have fresh: "\<And>x. x \<in> set (conversations d) \<Longrightarrow> \<not> conv_id x = new_pk (map conv_id (conversations d))"
    by (rule new_pk_fresh_row)
  have same: "insert u {i. i \<in> set (u # L) \<and> i \<in> user_ids d} = insert u {i. i \<in> set L \<and> i \<in> user_ids d}"
    by auto
  show ?thesis
    by (simp add: ConversationViewSet_create_def ConversationSerializer_create_rows
          find_snoc_fresh [OF fresh] same del: set_simps)
qed

section \<open>The sender of a new message\<close>

text \<open>
  C10. Whenever an append-message request of the caller \<open>u\<close> creates a message, its
  sender is the user named by the payload's \<open>sender_id\<close> when the payload has that key,
  and \<open>u\<close> only when it has not. And a request for a conversation of \<open>u\<close>, with an
  accepted content, does create and store the message when that sender is a stored user:
  so a \<open>sender_id\<close> naming an existing user replaces the caller as sender.
\<close>

theorem create_message_sender_from_payload:
  "(MessageViewSet_create d cf clk u payload = Inr (d', Response (Message_data m) st)
      \<longrightarrow> sender m = (case key_sender_id payload of None \<Rightarrow> u | Some sid \<Rightarrow> sid))
   \<and> (key_conversation payload = Some cid \<and> Conversation_objects_get d cid u = Some c
        \<and> key_content payload = Some txt \<and> cf txt = Some txt'
        \<and> (case key_sender_id payload of None \<Rightarrow> u | Some sid \<Rightarrow> sid) \<in> user_ids d
      \<longrightarrow> (\<exists>d1 m1. MessageViewSet_create d cf clk u payload
                      = Inr (d1, Response (Message_data m1) HTTP_201_CREATED)
                  \<and> m1 \<in> set (messages d1)
                  \<and> sender m1 = (case key_sender_id payload of None \<Rightarrow> u | Some sid \<Rightarrow> sid)))"
proof (intro conjI impI)
  assume ok: "MessageViewSet_create d cf clk u payload = Inr (d', Response (Message_data m) st)"
  then obtain vd where vd: "MessageSerializer_is_valid d cf False payload = Inr vd"
    and cr: "MessageSerializer_create d clk (Some u) (vd\<lparr>key_sender := Some u\<rparr>) = Inr (d', m)"
    by (auto simp: MessageViewSet_create_def split: if_splits sum.splits prod.splits)
  from vd have "key_sender_id vd = key_sender_id payload"
    by (auto simp: MessageSerializer_is_valid_def split: if_splits)
  with MessageSerializer_create_sender [OF cr]
  show "sender m = (case key_sender_id payload of None \<Rightarrow> u | Some sid \<Rightarrow> sid)" by simp
next
  assume h: "key_conversation payload = Some cid \<and> Conversation_objects_get d cid u = Some c
        \<and> key_content payload = Some txt \<and> cf txt = Some txt'
        \<and> (case key_sender_id payload of None \<Rightarrow> u | Some sid \<Rightarrow> sid) \<in> user_ids d"
  then have cin: "cid \<in> set (map conv_id (conversations d))"
    using Conversation_objects_get_Some [of d cid u c] by auto
  define vd where "vd = payload\<lparr>key_sender := None, key_content := Some txt'\<rparr>"
  have valid: "MessageSerializer_is_valid d cf False payload = Inr vd"
    using h cin by (simp add: MessageSerializer_is_valid_def vd_def)
  have "\<exists>d1 m1. MessageSerializer_create d clk (Some u) (vd\<lparr>key_sender := Some u\<rparr>) = Inr (d1, m1)
           \<and> m1 \<in> set (messages d1)"
    using h by (intro MessageSerializer_create_ok [of vd cid txt']) (simp_all add: vd_def)
  then obtain d1 m1 where cr: "MessageSerializer_create d clk (Some u) (vd\<lparr>key_sender := Some u\<rparr>) = Inr (d1, m1)"
    and stored: "m1 \<in> set (messages d1)" by blast
  have "sender m1 = (case key_sender_id payload of None \<Rightarrow> u | Some sid \<Rightarrow> sid)"
    using MessageSerializer_create_sender [OF cr] by (simp add: vd_def)
  moreover have "MessageViewSet_create d cf clk u payload = Inr (d1, Response (Message_data m1) HTTP_201_CREATED)"
    using h valid cr by (simp add: MessageViewSet_create_def truthy_def)
  ultimately show "\<exists>d1 m1. MessageViewSet_create d cf clk u payload
                      = Inr (d1, Response (Message_data m1) HTTP_201_CREATED)
                  \<and> m1 \<in> set (messages d1)
                  \<and> sender m1 = (case key_sender_id payload of None \<Rightarrow> u | Some sid \<Rightarrow> sid)"
    using stored by blast
qed

theorem create_message_sender_from_payload_witness:
  "\<exists>d1 m1. MessageViewSet_create db0 accept_nonblank (clock_from 10) 1
               \<lparr>key_sender = None, key_sender_id = Some 2, key_conversation = Some 1,
                key_content = Some ''yo'', key_is_read = None\<rparr>
             = Inr (d1, Response (Message_data m1) HTTP_201_CREATED)
           \<and> m1 \<in> set (messages d1) \<and> sender m1 = 2"
proof -
  let ?p = "\<lparr>key_sender = None, key_sender_id = Some 2, key_conversation = Some 1,
             key_content = Some ''yo'', key_is_read = None\<rparr>"
  let ?c = "\<lparr>conv_id = 1, participants = {1, 2}, created_at = 1, updated_at = 5\<rparr>"
  have h: "key_conversation ?p = Some 1 \<and> Conversation_objects_get db0 1 1 = Some ?c
        \<and> key_content ?p = Some ''yo'' \<and> accept_nonblank ''yo'' = Some ''yo''
        \<and> (case key_sender_id ?p of None \<Rightarrow> 1 | Some sid \<Rightarrow> sid) \<in> user_ids db0"
    by (simp add: db0_def Conversation_objects_get_def accept_nonblank_def user_ids_def)
  have "\<exists>d1 m1. MessageViewSet_create db0 accept_nonblank (clock_from 10) 1 ?p
             = Inr (d1, Response (Message_data m1) HTTP_201_CREATED)
           \<and> m1 \<in> set (messages d1)
           \<and> sender m1 = (case key_sender_id ?p of None \<Rightarrow> 1 | Some sid \<Rightarrow> sid)"
    by (rule create_message_sender_from_payload
              [of db0 accept_nonblank "clock_from 10" 1 ?p _ _ _ 1 ?c "''yo''" "''yo''",
               THEN conjunct2, rule_format, OF h])
  then obtain d1 m1 where run: "MessageViewSet_create db0 accept_nonblank (clock_from 10) 1 ?p
             = Inr (d1, Response (Message_data m1) HTTP_201_CREATED)"
    and stored: "m1 \<in> set (messages d1)"
    by blast
  have "sender m1 = 2"
    using create_message_sender_from_payload
            [of db0 accept_nonblank "clock_from 10" 1 ?p d1 m1 HTTP_201_CREATED] run
    by simp
  with run stored show ?thesis by blast
qed

section \<open>Marking a conversation read\<close>

lemma Conversation_objects_get_messages:
  "Conversation_objects_get (d\<lparr>messages := ms\<rparr>) cid u = Conversation_objects_get d cid u"
  by (simp add: Conversation_objects_get_def)

lemma flipped_map:
  "flipped d (d\<lparr>messages := map (\<lambda>m. if P m then m\<lparr>is_read := True\<rparr> else m) (messages d)\<rparr>)
     = length (filter (\<lambda>m. P m \<and> \<not> is_read m) (messages d))"
proof -
  have "length (filter (\<lambda>(m, m'). \<not> is_read m \<and> is_read m')
                 (zip ms (map (\<lambda>m. if P m then m\<lparr>is_read := True\<rparr> else m) ms)))
          = length (filter (\<lambda>m. P m \<and> \<not> is_read m) ms)" for ms :: "message list"
    by (induction ms) auto
  then show ?thesis by (simp add: flipped_def)
qed

lemma flipped_same: "flipped d d = 0"
proof -
  have "filter (\<lambda>(m, m'). \<not> is_read m \<and> is_read m') (zip ms ms) = []" for ms :: "message list"
    by (induction ms) auto
  then show ?thesis by (simp add: flipped_def)
qed

text \<open>
  C2, as the code has it. For a participant \<open>u\<close> of the conversation \<open>cid\<close>,
  \<open>mark_conversation_as_read\<close> sets \<open>is_read\<close> on exactly the messages of the
  conversation whose sender is not \<open>u\<close> and leaves every other message, and every other
  field, as it was; the number of messages it flips is the number of unread ones among
  them. Its answer is a fixed success message that carries no count, and a repeated call
  changes nothing.
\<close>

theorem mark_conversation_as_read_effect:
  assumes "Conversation_objects_get d cid u = Some c" and "cid \<noteq> 0"
  shows "\<exists>d'. mark_conversation_as_read d u (Some cid)
               = (d', Response (Dict [(''message'', ''All messages in conversation marked as read'')])
                        HTTP_200_OK)
          \<and> users d' = users d \<and> conversations d' = conversations d
          \<and> list_all2 (\<lambda>m m'. m' = m\<lparr>is_read := is_read m \<or> (conversation m = cid \<and> sender m \<noteq> u)\<rparr>)
               (messages d) (messages d')
          \<and> flipped d d' = length (filter (\<lambda>m. conversation m = cid \<and> sender m \<noteq> u \<and> \<not> is_read m) (messages d))
          \<and> mark_conversation_as_read d' u (Some cid)
               = (d', Response (Dict [(''message'', ''All messages in conversation marked as read'')])
                        HTTP_200_OK)"
proof -
  define f :: "message \<Rightarrow> message" where "f = (\<lambda>m. if conversation m = cid \<and> sender m \<noteq> u then m\<lparr>is_read := True\<rparr> else m)"
  define d' where "d' = d\<lparr>messages := map f (messages d)\<rparr>"
  have cid: "conv_id c = cid"
    using assms(1) Conversation_objects_get_Some by blast
  have first: "mark_conversation_as_read d u (Some cid)
      = (d', Response (Dict [(''message'', ''All messages in conversation marked as read'')]) HTTP_200_OK)"
    using assms cid by (simp add: mark_conversation_as_read_def truthy_def d'_def f_def)
  have idem: "map f (map f ms) = map f ms" for ms
    by (induction ms) (auto simp: f_def)
  have get': "Conversation_objects_get d' cid u = Some c"
    using assms(1) by (simp add: d'_def Conversation_objects_get_messages)
  have second: "mark_conversation_as_read d' u (Some cid)
      = (d', Response (Dict [(''message'', ''All messages in conversation marked as read'')]) HTTP_200_OK)"
    using get' assms(2) cid idem [of "messages d"]
    by (simp add: mark_conversation_as_read_def truthy_def d'_def f_def [symmetric])
  have rows: "list_all2 (\<lambda>m m'. m' = m\<lparr>is_read := is_read m \<or> (conversation m = cid \<and> sender m \<noteq> u)\<rparr>)
               ms (map f ms)" for ms
    by (induction ms) (auto simp: f_def)
  have count: "flipped d d' = length (filter (\<lambda>m. conversation m = cid \<and> sender m \<noteq> u \<and> \<not> is_read m) (messages d))"
    using flipped_map [of d "\<lambda>m. conversation m = cid \<and> sender m \<noteq> u"]
    by (simp add: d'_def f_def conj_assoc)
  show ?thesis
    using first second rows [of "messages d"] count by (intro exI [of _ d']) (simp add: d'_def)
qed

theorem mark_conversation_as_read_effect_witness:
  "\<exists>d'. mark_conversation_as_read db0 1 (Some 1)
               = (d', Response (Dict [(''message'', ''All messages in conversation marked as read'')])
                        HTTP_200_OK)
          \<and> conversations d' = conversations db0
          \<and> flipped db0 d' = 1
          \<and> mark_conversation_as_read d' 1 (Some 1)
               = (d', Response (Dict [(''message'', ''All messages in conversation marked as read'')])
                        HTTP_200_OK)"
proof -
  have h: "Conversation_objects_get db0 1 1
             = Some \<lparr>conv_id = 1, participants = {1, 2}, created_at = 1, updated_at = 5\<rparr>"
    by (simp add: db0_def Conversation_objects_get_def)
  have n: "length (filter (\<lambda>m. conversation m = 1 \<and> sender m \<noteq> 1 \<and> \<not> is_read m) (messages db0)) = 1"
    by (simp add: db0_def)
  show ?thesis
    using mark_conversation_as_read_effect [OF h, of] n by auto
qed

text \<open>
  C2 as stated fails: the first call for Alice on conversation 1 flips one message and the
  second flips none, and both return the same response, which holds no count.
\<close>

theorem mark_conversation_as_read_no_count:
  "snd (mark_conversation_as_read db0 1 (Some 1))
       = Response (Dict [(''message'', ''All messages in conversation marked as read'')]) HTTP_200_OK
   \<and> snd (mark_conversation_as_read (fst (mark_conversation_as_read db0 1 (Some 1))) 1 (Some 1))
       = Response (Dict [(''message'', ''All messages in conversation marked as read'')]) HTTP_200_OK
   \<and> flipped db0 (fst (mark_conversation_as_read db0 1 (Some 1))) = 1
   \<and> flipped (fst (mark_conversation_as_read db0 1 (Some 1)))
        (fst (mark_conversation_as_read (fst (mark_conversation_as_read db0 1 (Some 1))) 1 (Some 1))) = 0"
  by code_simp

section \<open>Requests of a user who is not a participant\<close>

lemma no_participant_get_None:
  "\<not> conversation_has_participant d u cid \<Longrightarrow> Conversation_objects_get d cid u = None"
  by (auto simp: conversation_has_participant_def Conversation_objects_get_def find_None_iff list_ex_iff)

text \<open>
  C3, as the code has it. When the caller is not a participant of the conversation named
  by the request (whether or not that conversation exists), appending a message answers
  404 Not Found and leaves the database as it was, and listing the messages of that
  conversation answers 200 with an empty list.
\<close>

theorem non_participant_gets_not_found:
  assumes "key_conversation payload = Some cid" and "cid \<noteq> 0"
      and "\<not> conversation_has_participant d u cid"
  shows "MessageViewSet_create d cf clk u payload
           = Inr (d, Response (Dict [(''error'', ''Conversation not found or you are not a participant'')])
                       HTTP_404_NOT_FOUND)
       \<and> MessageViewSet_list d u (Some cid) = Response (Message_list []) HTTP_200_OK"
proof -
  have "filter (\<lambda>m. conversation m = cid)
          (filter (\<lambda>m. conversation_has_participant d u (conversation m)) (messages d)) = []"
    using assms(3) by (auto simp: filter_empty_conv)
  then have "MessageViewSet_get_queryset d u (Some cid) = []"
    by (simp add: MessageViewSet_get_queryset_def order_by_timestamp_desc_def)
  then show ?thesis
    using assms no_participant_get_None [of d u cid]
    by (simp add: MessageViewSet_create_def MessageViewSet_list_def truthy_def)
qed

theorem non_participant_gets_not_found_witness:
  "MessageViewSet_create db0 accept_nonblank (clock_from 10) 3
       \<lparr>key_sender = None, key_sender_id = None, key_conversation = Some 1,
        key_content = Some ''x'', key_is_read = None\<rparr>
           = Inr (db0, Response (Dict [(''error'', ''Conversation not found or you are not a participant'')])
                       HTTP_404_NOT_FOUND)
       \<and> MessageViewSet_list db0 3 (Some 1) = Response (Message_list []) HTTP_200_OK"
proof -
  have h: "\<not> conversation_has_participant db0 3 1"
    by (simp add: conversation_has_participant_def db0_def)
  show ?thesis
    using non_participant_gets_not_found [of "\<lparr>key_sender = None, key_sender_id = None, key_conversation = Some 1,
        key_content = Some ''x'', key_is_read = None\<rparr>" 1 db0 3 accept_nonblank "clock_from 10"] h
    by simp
qed

text \<open>
  C3 as stated fails: Carol is no participant of conversation 1, and her append request
  is answered with 404, the same answer as for the missing conversation 99, not with
  403; her listing request succeeds with an empty list.
\<close>

theorem non_participant_not_forbidden:
  "MessageViewSet_create db0 accept_nonblank (clock_from 10) 3
       \<lparr>key_sender = None, key_sender_id = None, key_conversation = Some 1,
        key_content = Some ''x'', key_is_read = None\<rparr>
     = Inr (db0, Response (Dict [(''error'', ''Conversation not found or you are not a participant'')])
                   HTTP_404_NOT_FOUND)
   \<and> MessageViewSet_create db0 accept_nonblank (clock_from 10) 3
       \<lparr>key_sender = None, key_sender_id = None, key_conversation = Some 99,
        key_content = Some ''x'', key_is_read = None\<rparr>
     = Inr (db0, Response (Dict [(''error'', ''Conversation not found or you are not a participant'')])
                   HTTP_404_NOT_FOUND)
   \<and> HTTP_404_NOT_FOUND \<noteq> HTTP_403_FORBIDDEN
   \<and> MessageViewSet_list db0 3 (Some 1) = Response (Message_list []) HTTP_200_OK"
  by (simp add: db0_def MessageViewSet_create_def MessageViewSet_list_def truthy_def
        Conversation_objects_get_def MessageViewSet_get_queryset_def conversation_has_participant_def
        order_by_timestamp_desc_def)

section \<open>What saving a message writes\<close>

lemma conversations_Message_save:
  "conversations (Message_save t m d)
     = map (\<lambda>c. if conv_id c = conversation m then c\<lparr>updated_at := t\<rparr> else c) (conversations d)"
  by (simp add: Message_save_def Conversation_save_def update_conversation_def Model_save_message_def)

lemma messages_Message_save:
  "messages (Message_save t m d)
     = (if msg_id m \<in> set (map msg_id (messages d))
        then map (\<lambda>x. if msg_id x = msg_id m then m else x) (messages d)
        else messages d @ [m])"
  by (simp add: Message_save_def Conversation_save_def update_conversation_def Model_save_message_def)

lemma users_Message_save: "users (Message_save t m d) = users d"
  by (simp add: Message_save_def Conversation_save_def update_conversation_def Model_save_message_def)

lemma ModelSerializer_create_Inr:
  "ModelSerializer_create d clk vd = Inr (d', m) \<Longrightarrow>
     key_conversation vd = Some (conversation m) \<and> timestamp m = clk 0
     \<and> msg_id m = new_pk (map msg_id (messages d)) \<and> d' = Message_save (clk 1) m d"
  by (auto simp: ModelSerializer_create_def Let_def split: option.splits if_splits)

lemma MessageSerializer_create_Inr:
  "MessageSerializer_create d clk rq vd = Inr (d', m) \<Longrightarrow>
     key_conversation vd = Some (conversation m) \<and> timestamp m = clk 0
     \<and> msg_id m = new_pk (map msg_id (messages d)) \<and> d' = Message_save (clk 1) m d"
  unfolding MessageSerializer_create_def
  by (auto split: if_splits option.splits dest!: ModelSerializer_create_Inr)

lemma MessageSerializer_is_valid_Inr:
  "MessageSerializer_is_valid d cf False payload = Inr vd \<Longrightarrow>
     key_conversation vd = key_conversation payload
     \<and> (\<exists>cid. key_conversation payload = Some cid \<and> cid \<in> set (map conv_id (conversations d)))"
  by (auto simp: MessageSerializer_is_valid_def split: if_splits option.splits)

lemma MessageViewSet_create_cases:
  assumes "MessageViewSet_create d cf clk u payload = Inr (d', r)"
  shows "d' = d \<or>
         (\<exists>m. r = Response (Message_data m) HTTP_201_CREATED
            \<and> key_conversation payload = Some (conversation m)
            \<and> conversation m \<in> set (map conv_id (conversations d))
            \<and> (conversation m \<noteq> 0 \<longrightarrow> Conversation_objects_get d (conversation m) u \<noteq> None)
            \<and> timestamp m = clk 0
            \<and> msg_id m = new_pk (map msg_id (messages d))
            \<and> d' = Message_save (clk 1) m d)"
proof (cases "d' = d")
  case True
  then show ?thesis by simp
next
  case False
  with assms obtain vd m where vd: "MessageSerializer_is_valid d cf False payload = Inr vd"
    and cr: "MessageSerializer_create d clk (Some u) (vd\<lparr>key_sender := Some u\<rparr>) = Inr (d', m)"
    and r: "r = Response (Message_data m) HTTP_201_CREATED"
    and chk: "\<not> (truthy (key_conversation payload)
         \<and> (case key_conversation payload of
               None \<Rightarrow> False
             | Some cid \<Rightarrow> Conversation_objects_get d cid u = None))"
    by (auto simp: MessageViewSet_create_def split: if_splits sum.splits prod.splits)
  from MessageSerializer_is_valid_Inr [OF vd] MessageSerializer_create_Inr [OF cr] chk r
  show ?thesis
    by (auto simp: truthy_def)
qed

lemma list_all2_map_eq: "list_all2 (\<lambda>x y. y = f x) xs (map f xs)"
  by (induction xs) auto

section \<open>Marking one message read\<close>

text \<open>
  C4 does not hold of the code. \<open>mark_as_read\<close> calls \<open>message.save()\<close>, and
  \<open>Message.save\<close> saves the conversation on every save, not only when a message is
  added: when Alice marks message 2 read at clock reading 10, the \<open>updated_at\<close> of
  conversation 1 goes from 5 to 10.
\<close>

theorem mark_as_read_touches_conversation:
  "mark_as_read db0 (clock_from 10) 1 None 2 =
   Inr (db0\<lparr>conversations := [\<lparr>conv_id = 1, participants = {1, 2}, created_at = 1, updated_at = 10\<rparr>,
                              \<lparr>conv_id = 2, participants = {3}, created_at = 2, updated_at = 3\<rparr>],
            messages := [\<lparr>msg_id = 1, sender = 1, conversation = 1, content = ''hi'', timestamp = 4, is_read = False\<rparr>,
                      \<lparr>msg_id = 2, sender = 2, conversation = 1, content = ''hello'', timestamp = 5, is_read = True\<rparr>,
                      \<lparr>msg_id = 3, sender = 3, conversation = 2, content = ''memo'', timestamp = 3, is_read = True\<rparr>]\<rparr>,
      Response (Dict [(''message'', ''Message marked as read'')]) HTTP_200_OK)
   \<and> map updated_at (conversations db0) = [5, 3]"
  by code_simp

section \<open>The last activity of a conversation\<close>

text \<open>
  C5, as the code has it. A successful append to the conversation named by the payload
  gives the message the first clock reading of the request as its timestamp and sets
  the conversation's \<open>updated_at\<close> to the second reading, taken when the conversation
  is saved, whatever the stored value was; every other conversation is unchanged. So the
  last activity moves backward exactly when that reading is older than the stored value.
\<close>

theorem append_stamps_conversation:
  assumes "MessageViewSet_create d cf clk u payload = Inr (d', Response (Message_data m) st)"
  shows "key_conversation payload = Some (conversation m) \<and> timestamp m = clk 0
       \<and> list_all2 (\<lambda>c c'. c' = (if conv_id c = conversation m then c\<lparr>updated_at := clk 1\<rparr> else c))
            (conversations d) (conversations d')"
proof -
  have "\<exists>m'. Response (Message_data m) st = Response (Message_data m') HTTP_201_CREATED
            \<and> key_conversation payload = Some (conversation m')
            \<and> timestamp m' = clk 0 \<and> d' = Message_save (clk 1) m' d"
    using assms
    by (auto simp: MessageViewSet_create_def split: if_splits sum.splits prod.splits
          dest!: MessageSerializer_create_Inr MessageSerializer_is_valid_Inr)
  then have m: "key_conversation payload = Some (conversation m)" "timestamp m = clk 0"
      "d' = Message_save (clk 1) m d" by auto
  have conv: "conversations d'
      = map (\<lambda>c. if conv_id c = conversation m then c\<lparr>updated_at := clk 1\<rparr> else c) (conversations d)"
    unfolding m(3) by (rule conversations_Message_save)
  show ?thesis
    unfolding conv using m(1,2) by (intro conjI list_all2_map_eq)
qed

theorem append_stamps_conversation_witness:
  "MessageViewSet_create db0 accept_nonblank (clock_from 10) 1
       \<lparr>key_sender = None, key_sender_id = None, key_conversation = Some 1,
        key_content = Some ''x'', key_is_read = None\<rparr>
     = Inr (db0\<lparr>conversations := [\<lparr>conv_id = 1, participants = {1, 2}, created_at = 1, updated_at = 11\<rparr>,
                                \<lparr>conv_id = 2, participants = {3}, created_at = 2, updated_at = 3\<rparr>],
               messages := messages db0 @
                  [\<lparr>msg_id = 4, sender = 1, conversation = 1, content = ''x'', timestamp = 10, is_read = False\<rparr>]\<rparr>,
            Response (Message_data
                  \<lparr>msg_id = 4, sender = 1, conversation = 1, content = ''x'', timestamp = 10, is_read = False\<rparr>)
              HTTP_201_CREATED)
   \<and> list_all2 (\<lambda>c c'. c' = (if conv_id c = 1 then c\<lparr>updated_at := clock_from 10 1\<rparr> else c))
        (conversations db0)
        [\<lparr>conv_id = 1, participants = {1, 2}, created_at = 1, updated_at = 11\<rparr>,
         \<lparr>conv_id = 2, participants = {3}, created_at = 2, updated_at = 3\<rparr>]"
proof -
  have run: "MessageViewSet_create db0 accept_nonblank (clock_from 10) 1
       \<lparr>key_sender = None, key_sender_id = None, key_conversation = Some 1,
        key_content = Some ''x'', key_is_read = None\<rparr>
     = Inr (db0\<lparr>conversations := [\<lparr>conv_id = 1, participants = {1, 2}, created_at = 1, updated_at = 11\<rparr>,
                                \<lparr>conv_id = 2, participants = {3}, created_at = 2, updated_at = 3\<rparr>],
               messages := messages db0 @
                  [\<lparr>msg_id = 4, sender = 1, conversation = 1, content = ''x'', timestamp = 10, is_read = False\<rparr>]\<rparr>,
            Response (Message_data
                  \<lparr>msg_id = 4, sender = 1, conversation = 1, content = ''x'', timestamp = 10, is_read = False\<rparr>)
              HTTP_201_CREATED)"
    by code_simp
  show ?thesis
    using append_stamps_conversation [OF run] run by simp
qed

text \<open>
  C5 as stated fails: an append that reads the clock at 2 and 3 moves the
  \<open>updated_at\<close> of conversation 1 from 5 back to 3; a stamp with an older reading is
  not a no-op.
\<close>

theorem append_moves_activity_backward:
  "MessageViewSet_create db0 accept_nonblank (clock_from 2) 1
       \<lparr>key_sender = None, key_sender_id = None, key_conversation = Some 1,
        key_content = Some ''x'', key_is_read = None\<rparr>
     = Inr (db0\<lparr>conversations := [\<lparr>conv_id = 1, participants = {1, 2}, created_at = 1, updated_at = 3\<rparr>,
                                \<lparr>conv_id = 2, participants = {3}, created_at = 2, updated_at = 3\<rparr>],
               messages := messages db0 @
                  [\<lparr>msg_id = 4, sender = 1, conversation = 1, content = ''x'', timestamp = 2, is_read = False\<rparr>]\<rparr>,
            Response (Message_data
                  \<lparr>msg_id = 4, sender = 1, conversation = 1, content = ''x'', timestamp = 2, is_read = False\<rparr>)
              HTTP_201_CREATED)
   \<and> map updated_at (conversations db0) = [5, 3]"
  by code_simp

section \<open>Adding and removing a participant\<close>

lemma distinct_key_eq:
  "distinct (map f xs) \<Longrightarrow> x \<in> set xs \<Longrightarrow> y \<in> set xs \<Longrightarrow> f x = f y \<Longrightarrow> x = y"
  by (meson distinct_map inj_onD)

lemma set_ConversationViewSet_get_queryset:
  "set (ConversationViewSet_get_queryset d u) = {c. c \<in> set (conversations d) \<and> u \<in> participants c}"
  by (auto simp: ConversationViewSet_get_queryset_def order_by_updated_at_desc_def)

lemma ConversationViewSet_get_object_Inr:
  assumes "ConversationViewSet_get_object d u pk = Inr c"
  shows "c \<in> set (conversations d) \<and> conv_id c = pk \<and> u \<in> participants c"
proof -
  from assms have "find (\<lambda>c. conv_id c = pk) (ConversationViewSet_get_queryset d u) = Some c"
    by (auto simp: ConversationViewSet_get_object_def split: option.splits)
  then have "c \<in> set (ConversationViewSet_get_queryset d u) \<and> conv_id c = pk"
    by (auto simp: find_Some_iff)
  then show ?thesis by (simp add: set_ConversationViewSet_get_queryset)
qed

lemma ConversationViewSet_get_object_stored:
  assumes "distinct (map conv_id (conversations d))"
      and "c \<in> set (conversations d)" and "u \<in> participants c"
  shows "ConversationViewSet_get_object d u (conv_id c) = Inr c"
proof (cases "find (\<lambda>x. conv_id x = conv_id c) (ConversationViewSet_get_queryset d u)")
  case None
  then have "c \<notin> set (ConversationViewSet_get_queryset d u)"
    by (auto simp: find_None_iff)
  with assms show ?thesis by (simp add: set_ConversationViewSet_get_queryset)
next
  case (Some c')
  then have "c' \<in> set (ConversationViewSet_get_queryset d u) \<and> conv_id c' = conv_id c"
    by (auto simp: find_Some_iff)
  then have "c' \<in> set (conversations d)" "conv_id c' = conv_id c"
    by (simp_all add: set_ConversationViewSet_get_queryset)
  with assms have "c' = c" using distinct_key_eq [of conv_id "conversations d" c' c] by simp
  with Some show ?thesis by (simp add: ConversationViewSet_get_object_def)
qed

lemma wf_db_user_pos: "wf_db d \<Longrightarrow> v \<in> user_ids d \<Longrightarrow> v \<noteq> 0"
  by (auto simp: wf_db_def user_ids_def list_all_iff)

lemma map_one_row:
  assumes "distinct (map conv_id cs)" and "c \<in> set cs" and "f c = c"
  shows "map (\<lambda>x. if conv_id x = conv_id c then f x else x) cs = cs"
proof -
  have "(if conv_id x = conv_id c then f x else x) = x" if "x \<in> set cs" for x
    using that assms distinct_key_eq [of conv_id cs x c] by auto
  then show ?thesis by (simp add: map_idI)
qed

text \<open>
  C9, as the code has it. In a well-formed database, when \<open>u\<close> can reach the
  conversation \<open>pk\<close> and \<open>v\<close> is a stored user who is not yet a participant of it,
  adding \<open>v\<close> and then removing \<open>v\<close> both succeed, and the database after the pair
  is the database before it.
\<close>

theorem add_then_remove_restores:
  assumes "wf_db d" and "ConversationViewSet_get_object d u pk = Inr c"
      and "v \<in> user_ids d" and "v \<notin> participants c"
  shows "\<exists>d1 r1 r2.
           add_participant d u pk (Some v) = Inr (d1, r1) \<and> status_code r1 = HTTP_200_OK
         \<and> ConversationViewSet_get_object d1 u pk = Inr (c\<lparr>participants := insert v (participants c)\<rparr>)
         \<and> remove_participant d1 u pk (Some v) = Inr (d, r2) \<and> status_code r2 = HTTP_200_OK"
proof -
  have dist: "distinct (map conv_id (conversations d))"
    using assms(1) by (simp add: wf_db_def)
  have c: "c \<in> set (conversations d)" "conv_id c = pk" "u \<in> participants c"
    using ConversationViewSet_get_object_Inr [OF assms(2)] by simp_all
  have v0: "v \<noteq> 0" using wf_db_user_pos [OF assms(1,3)] .
  obtain usr where usr: "User_objects_get d v = Some usr" "user_id usr = v"
    using User_objects_get_Some [OF assms(3)] by blast
  define c1 where "c1 = c\<lparr>participants := insert v (participants c)\<rparr>"
  define d1 where "d1 = participants_add pk v d"
  have add: "add_participant d u pk (Some v)
      = Inr (d1, Response (Dict [(''message'', ''User '' @ username usr @ '' added to conversation'')]) HTTP_200_OK)"
    using assms(2) v0 usr c by (simp add: add_participant_def d1_def)
  have convs1: "conversations d1
      = map (\<lambda>x. if conv_id x = pk then x\<lparr>participants := insert v (participants x)\<rparr> else x) (conversations d)"
    by (simp add: d1_def participants_add_def update_conversation_def)
  have ids1: "map conv_id (conversations d1) = map conv_id (conversations d)"
    by (simp add: convs1 comp_def if_distrib [of conv_id] cong: if_cong)
  have c1_in: "c1 \<in> set (conversations d1)"
    using c by (force simp: convs1 c1_def)
  have get1: "ConversationViewSet_get_object d1 u pk = Inr c1"
    using ConversationViewSet_get_object_stored [of d1 c1 u] dist ids1 c1_in c
    by (simp add: c1_def)
  have users1: "User_objects_get d1 v = Some usr"
    using usr by (simp add: User_objects_get_def d1_def participants_add_def update_conversation_def)
  have undo: "participants_remove pk v d1 = d"
  proof -
    have "map (\<lambda>x. if conv_id x = conv_id c
                     then (x\<lparr>participants := insert v (participants x)\<rparr>)
                            \<lparr>participants := insert v (participants x) - {v}\<rparr>
                     else x) (conversations d) = conversations d"
      using assms(4) by (intro map_one_row [OF dist c(1)]) simp
    then show ?thesis
      using c(2)
      by (simp add: d1_def participants_remove_def participants_add_def update_conversation_def
            comp_def if_distrib cong: if_cong)
  qed
  have rem: "remove_participant d1 u pk (Some v)
      = Inr (d, Response (Dict [(''message'', ''User '' @ username usr @ '' removed from conversation'')]) HTTP_200_OK)"
    using get1 v0 users1 usr undo c(2) by (simp add: remove_participant_def c1_def)
  show ?thesis
    using add get1 rem by (simp add: c1_def)
qed

theorem add_then_remove_restores_witness:
  "\<exists>d1 r1 r2.
           add_participant db0 1 1 (Some 3) = Inr (d1, r1) \<and> status_code r1 = HTTP_200_OK
         \<and> ConversationViewSet_get_object d1 1 1
              = Inr \<lparr>conv_id = 1, participants = {3, 1, 2}, created_at = 1, updated_at = 5\<rparr>
         \<and> remove_participant d1 1 1 (Some 3) = Inr (db0, r2) \<and> status_code r2 = HTTP_200_OK"
proof -
  have wf: "wf_db db0" by code_simp
  have obj: "ConversationViewSet_get_object db0 1 1
      = Inr \<lparr>conv_id = 1, participants = {1, 2}, created_at = 1, updated_at = 5\<rparr>"
    by code_simp
  have v: "3 \<in> user_ids db0" by code_simp
  have nv: "3 \<notin> participants \<lparr>conv_id = 1, participants = {1, 2}, created_at = 1, updated_at = (5::int)\<rparr>"
    by simp
  show ?thesis
    using add_then_remove_restores [OF wf obj v nv] by simp
qed

text \<open>
  C9 as stated fails for a user who already is a participant: adding Bob to conversation
  1 changes nothing, and removing him then leaves the conversation without Bob.
\<close>

theorem add_then_remove_drops_participant:
  "add_participant db0 1 1 (Some 2)
     = Inr (db0, Response (Dict [(''message'', ''User bob added to conversation'')]) HTTP_200_OK)
   \<and> remove_participant db0 1 1 (Some 2)
     = Inr (db0\<lparr>conversations := [\<lparr>conv_id = 1, participants = {1}, created_at = 1, updated_at = 5\<rparr>,
                                \<lparr>conv_id = 2, participants = {3}, created_at = 2, updated_at = 3\<rparr>]\<rparr>,
            Response (Dict [(''message'', ''User bob removed from conversation'')]) HTTP_200_OK)
   \<and> map participants (conversations db0) = [{1, 2}, {3}]"
  by code_simp

section \<open>What each operation writes\<close>

lemma add_participant_changes:
  "add_participant d u pk v = Inr (d', r) \<Longrightarrow>
     d' = d \<or> (\<exists>conv w. ConversationViewSet_get_object d u pk = Inr conv
                  \<and> d' = participants_add (conv_id conv) w d)"
  by (auto simp: add_participant_def split: sum.splits option.splits if_splits)

lemma remove_participant_changes:
  "remove_participant d u pk v = Inr (d', r) \<Longrightarrow>
     d' = d \<or> (\<exists>conv w. ConversationViewSet_get_object d u pk = Inr conv
                  \<and> d' = participants_remove (conv_id conv) w d)"
  by (auto simp: remove_participant_def split: sum.splits option.splits if_splits)

lemma ConversationViewSet_create_changes:
  "ConversationViewSet_create d clk u ids = Inr (d', r) \<Longrightarrow>
     \<exists>c. d' = d\<lparr>conversations := conversations d @ [c]\<rparr>"
  by (auto simp: ConversationViewSet_create_def ConversationSerializer_create_rows split: option.splits)

lemma set_MessageViewSet_get_queryset:
  "set (MessageViewSet_get_queryset d u q)
     \<subseteq> {m. m \<in> set (messages d) \<and> conversation_has_participant d u (conversation m)}"
  by (auto simp: MessageViewSet_get_queryset_def order_by_timestamp_desc_def Let_def split: option.splits)

lemma MessageViewSet_get_object_Inr:
  assumes "MessageViewSet_get_object d u q pk = Inr m"
  shows "m \<in> set (messages d) \<and> msg_id m = pk \<and> conversation_has_participant d u (conversation m)"
proof -
  from assms have "find (\<lambda>m. msg_id m = pk) (MessageViewSet_get_queryset d u q) = Some m"
    by (auto simp: MessageViewSet_get_object_def split: option.splits)
  then have "m \<in> set (MessageViewSet_get_queryset d u q) \<and> msg_id m = pk"
    by (auto simp: find_Some_iff)
  then show ?thesis using set_MessageViewSet_get_queryset [of d u q] by auto
qed

lemma mark_as_read_changes:
  "mark_as_read d clk u q pk = Inr (d', r) \<Longrightarrow>
     \<exists>m. MessageViewSet_get_object d u q pk = Inr m
        \<and> d' = Message_save (clk 0) (m\<lparr>is_read := True\<rparr>) d
        \<and> r = Response (Dict [(''message'', ''Message marked as read'')]) HTTP_200_OK"
  by (auto simp: mark_as_read_def split: sum.splits)

lemma mark_conversation_as_read_changes:
  "fst (mark_conversation_as_read d u cid) = d
   \<or> (\<exists>conv k. Conversation_objects_get d k u = Some conv
         \<and> fst (mark_conversation_as_read d u cid)
             = d\<lparr>messages := map (\<lambda>m. if conversation m = conv_id conv \<and> sender m \<noteq> u
                                      then m\<lparr>is_read := True\<rparr> else m) (messages d)\<rparr>)"
  by (auto simp: mark_conversation_as_read_def split: option.splits)

section \<open>The read flag\<close>

lemma read_kept_map:
  assumes "messages d' = map g (messages d)"
      and "\<And>m. m \<in> set (messages d) \<Longrightarrow> msg_id (g m) = msg_id m \<and> (is_read m \<longrightarrow> is_read (g m))"
  shows "read_kept d d'"
proof -
  have "list_all2 (\<lambda>m m'. msg_id m' = msg_id m \<and> (is_read m \<longrightarrow> is_read m')) ms (map g ms)"
    if "\<And>m. m \<in> set ms \<Longrightarrow> msg_id (g m) = msg_id m \<and> (is_read m \<longrightarrow> is_read (g m))"
    for ms :: "message list"
    using that by (induction ms) auto
  with assms show ?thesis by (simp add: read_kept_def)
qed

lemma read_kept_append: "messages d' = messages d @ ms \<Longrightarrow> read_kept d d'"
  by (simp add: read_kept_def list_all2_same)

lemma read_kept_same: "messages d' = messages d \<Longrightarrow> read_kept d d'"
  by (simp add: read_kept_def list_all2_same)

lemma read_kept_mark_as_read:
  assumes "mark_as_read d clk u q pk = Inr (d', r)"
  shows "read_kept d d'"
proof -
  from mark_as_read_changes [OF assms] obtain m where
    m: "MessageViewSet_get_object d u q pk = Inr m" and d': "d' = Message_save (clk 0) (m\<lparr>is_read := True\<rparr>) d"
    by blast
  from MessageViewSet_get_object_Inr [OF m] have "m \<in> set (messages d)" "msg_id m = pk" by simp_all
  then have "messages d' = map (\<lambda>x. if msg_id x = pk then m\<lparr>is_read := True\<rparr> else x) (messages d)"
    unfolding d' by (auto simp: messages_Message_save)
  then show ?thesis
  proof (rule read_kept_map)
    fix x
    show "msg_id (if msg_id x = pk then m\<lparr>is_read := True\<rparr> else x) = msg_id x
          \<and> (is_read x \<longrightarrow> is_read (if msg_id x = pk then m\<lparr>is_read := True\<rparr> else x))"
      using \<open>msg_id m = pk\<close> by simp
  qed
qed

lemma read_kept_mark_conversation_as_read:
  "read_kept d (fst (mark_conversation_as_read d u cid))"
  using mark_conversation_as_read_changes [of d u cid]
proof (elim disjE exE conjE)
  assume "fst (mark_conversation_as_read d u cid) = d"
  then show ?thesis by (simp add: read_kept_same)
next
  fix conv k
  assume "fst (mark_conversation_as_read d u cid)
             = d\<lparr>messages := map (\<lambda>m. if conversation m = conv_id conv \<and> sender m \<noteq> u
                                      then m\<lparr>is_read := True\<rparr> else m) (messages d)\<rparr>"
  then have "messages (fst (mark_conversation_as_read d u cid))
            = map (\<lambda>m. if conversation m = conv_id conv \<and> sender m \<noteq> u
                         then m\<lparr>is_read := True\<rparr> else m) (messages d)"
    by simp
  then show ?thesis by (rule read_kept_map) simp
qed

lemma read_kept_MessageViewSet_create:
  assumes "MessageViewSet_create d cf clk u payload = Inr (d', r)"
  shows "read_kept d d'"
proof -
  from MessageViewSet_create_cases [OF assms]
  consider "d' = d" | m where "msg_id m = new_pk (map msg_id (messages d))" "d' = Message_save (clk 1) m d"
    by blast
  then show ?thesis
  proof cases
    case 1
    then show ?thesis by (simp add: read_kept_same)
  next
    case 2
    then have "messages d' = messages d @ [m]"
      using new_pk_fresh [of "map msg_id (messages d)"] by (simp add: messages_Message_save)
    then show ?thesis by (rule read_kept_append)
  qed
qed

lemma mark_as_read_again:
  assumes "distinct (map msg_id (messages d))"
      and "MessageViewSet_get_object d u q pk = Inr m" and "is_read m"
  shows "\<exists>d1. mark_as_read d clk u q pk
                = Inr (d1, Response (Dict [(''message'', ''Message marked as read'')]) HTTP_200_OK)
             \<and> messages d1 = messages d"
proof -
  from MessageViewSet_get_object_Inr [OF assms(2)] have m: "m \<in> set (messages d)" "msg_id m = pk"
    by simp_all
  have same: "m\<lparr>is_read := True\<rparr> = m" using assms(3) by simp
  have "(if msg_id x = msg_id m then m else x) = x" if "x \<in> set (messages d)" for x
    using that m assms(1) distinct_key_eq [of msg_id "messages d" x m] by auto
  then have "map (\<lambda>x. if msg_id x = msg_id m then m else x) (messages d) = messages d"
    by (simp add: map_idI)
  moreover have "msg_id m \<in> set (map msg_id (messages d))"
    using m by force
  ultimately have "messages (Message_save (clk 0) m d) = messages d"
    by (simp only: messages_Message_save if_True)
  then show ?thesis
    using assms(2) same by (simp add: mark_as_read_def)
qed

text \<open>
  C6, as the code has it. The operations written in the views (\<open>mark_as_read\<close>,
  \<open>mark_conversation_as_read\<close>, creating a message, creating a conversation, adding
  and removing a participant) keep every stored message under its key and never turn a
  read message unread; and marking a message read that is read already succeeds and
  leaves the messages as they are (the conversation is stamped again).
\<close>

theorem read_flag_one_way:
  "(mark_as_read d clk u q pk = Inr (d', r) \<longrightarrow> read_kept d d')
   \<and> read_kept d (fst (mark_conversation_as_read d u cid))
   \<and> (MessageViewSet_create d cf clk u payload = Inr (d', r) \<longrightarrow> read_kept d d')
   \<and> (ConversationViewSet_create d clk u ids = Inr (d', r) \<longrightarrow> read_kept d d')
   \<and> (add_participant d u pk v = Inr (d', r) \<longrightarrow> read_kept d d')
   \<and> (remove_participant d u pk v = Inr (d', r) \<longrightarrow> read_kept d d')
   \<and> (distinct (map msg_id (messages d)) \<and> MessageViewSet_get_object d u q pk = Inr m \<and> is_read m
        \<longrightarrow> (\<exists>d1. mark_as_read d clk u q pk
                     = Inr (d1, Response (Dict [(''message'', ''Message marked as read'')]) HTTP_200_OK)
                  \<and> messages d1 = messages d))"
proof (intro conjI impI)
  show "read_kept d (fst (mark_conversation_as_read d u cid))"
    by (rule read_kept_mark_conversation_as_read)
next
  assume "mark_as_read d clk u q pk = Inr (d', r)"
  then show "read_kept d d'" by (rule read_kept_mark_as_read)
next
  assume "MessageViewSet_create d cf clk u payload = Inr (d', r)"
  then show "read_kept d d'" by (rule read_kept_MessageViewSet_create)
next
  assume "ConversationViewSet_create d clk u ids = Inr (d', r)"
  then show "read_kept d d'"
    by (auto dest!: ConversationViewSet_create_changes intro: read_kept_same)
next
  assume "add_participant d u pk v = Inr (d', r)"
  then show "read_kept d d'"
    by (auto dest!: add_participant_changes intro!: read_kept_same
          simp: participants_add_def messages_update_conversation)
next
  assume "remove_participant d u pk v = Inr (d', r)"
  then show "read_kept d d'"
    by (auto dest!: remove_participant_changes intro!: read_kept_same
          simp: participants_remove_def messages_update_conversation)
next
  assume "distinct (map msg_id (messages d)) \<and> MessageViewSet_get_object d u q pk = Inr m \<and> is_read m"
  then show "\<exists>d1. mark_as_read d clk u q pk
                     = Inr (d1, Response (Dict [(''message'', ''Message marked as read'')]) HTTP_200_OK)
                  \<and> messages d1 = messages d"
    using mark_as_read_again by blast
qed

theorem read_flag_one_way_witness:
  "(\<exists>d1. mark_as_read db0 (clock_from 10) 3 None 3
            = Inr (d1, Response (Dict [(''message'', ''Message marked as read'')]) HTTP_200_OK)
         \<and> messages d1 = messages db0 \<and> read_kept db0 d1)
   \<and> read_kept db0 (fst (mark_conversation_as_read db0 1 (Some 1)))
   \<and> (\<exists>d2 r2. MessageViewSet_create db0 accept_nonblank (clock_from 10) 3
                  \<lparr>key_sender = None, key_sender_id = None, key_conversation = Some 2,
                   key_content = Some ''x'', key_is_read = None\<rparr> = Inr (d2, r2)
         \<and> read_kept db0 d2)
   \<and> (\<exists>d3 r3. ConversationViewSet_create db0 (clock_from 10) 3 (Some [1]) = Inr (d3, r3)
         \<and> read_kept db0 d3)
   \<and> (\<exists>d4 r4. add_participant db0 3 2 (Some 1) = Inr (d4, r4) \<and> read_kept db0 d4)
   \<and> (\<exists>d5 r5. remove_participant db0 3 2 (Some 3) = Inr (d5, r5) \<and> read_kept db0 d5)"
proof -
  let ?m = "\<lparr>msg_id = 3, sender = 3, conversation = 2, content = ''memo'', timestamp = 3, is_read = True\<rparr>"
  let ?p = "\<lparr>key_sender = None, key_sender_id = None, key_conversation = Some 2,
                   key_content = Some ''x'', key_is_read = None\<rparr>"
  have h: "distinct (map msg_id (messages db0))
      \<and> MessageViewSet_get_object db0 3 None 3 = Inr ?m \<and> is_read ?m"
    by code_simp
  from read_flag_one_way [where d = db0 and clk = "clock_from 10" and u = 3 and q = None and pk = 3
        and m = ?m] h
  obtain d1 where run1: "mark_as_read db0 (clock_from 10) 3 None 3
            = Inr (d1, Response (Dict [(''message'', ''Message marked as read'')]) HTTP_200_OK)"
    and same: "messages d1 = messages db0"
    by blast
  have kept1: "read_kept db0 d1"
    using read_flag_one_way [where d = db0 and clk = "clock_from 10" and u = 3 and q = None and pk = 3
        and d' = d1 and r = "Response (Dict [(''message'', ''Message marked as read'')]) HTTP_200_OK"] run1
    by blast
  have kept_all: "read_kept db0 (fst (mark_conversation_as_read db0 1 (Some 1)))"
    using read_flag_one_way [where d = db0 and u = 1 and cid = "Some 1"] by blast
  obtain d2 r2 where run2: "MessageViewSet_create db0 accept_nonblank (clock_from 10) 3 ?p = Inr (d2, r2)"
    by (simp add: run_defs)
  have kept2: "read_kept db0 d2"
    using read_flag_one_way [where d = db0 and cf = accept_nonblank and clk = "clock_from 10" and u = 3
        and payload = ?p and d' = d2 and r = r2] run2 by blast
  obtain d3 r3 where run3: "ConversationViewSet_create db0 (clock_from 10) 3 (Some [1]) = Inr (d3, r3)"
    by (simp add: run_defs)
  have kept3: "read_kept db0 d3"
    using read_flag_one_way [where d = db0 and clk = "clock_from 10" and u = 3
        and ids = "Some [1]" and d' = d3 and r = r3] run3 by blast
  obtain d4 r4 where run4: "add_participant db0 3 2 (Some 1) = Inr (d4, r4)"
    by (simp add: run_defs)
  have kept4: "read_kept db0 d4"
    using read_flag_one_way [where d = db0 and u = 3 and pk = 2 and v = "Some 1" and d' = d4 and r = r4]
      run4 by blast
  obtain d5 r5 where run5: "remove_participant db0 3 2 (Some 3) = Inr (d5, r5)"
    by (simp add: run_defs)
  have kept5: "read_kept db0 d5"
    using read_flag_one_way [where d = db0 and u = 3 and pk = 2 and v = "Some 3" and d' = d5 and r = r5]
      run5 by blast
  show ?thesis
    using run1 same kept1 kept_all run2 kept2 run3 kept3 run4 kept4 run5 kept5 by blast
qed

text \<open>
  C6 as stated fails: \<open>is_read\<close> is a writable field of \<open>MessageSerializer\<close>, so a
  PATCH of Carol on her read message 3 with \<open>is_read = false\<close> turns it unread.
\<close>

theorem patch_marks_unread:
  "MessageViewSet_partial_update db0 accept_nonblank (clock_from 10) 3 None 3
       \<lparr>key_sender = None, key_sender_id = None, key_conversation = None,
        key_content = None, key_is_read = Some False\<rparr>
     = Inr (db0\<lparr>conversations := [\<lparr>conv_id = 1, participants = {1, 2}, created_at = 1, updated_at = 5\<rparr>,
                                \<lparr>conv_id = 2, participants = {3}, created_at = 2, updated_at = 10\<rparr>],
               messages := [\<lparr>msg_id = 1, sender = 1, conversation = 1, content = ''hi'', timestamp = 4, is_read = False\<rparr>,
                      \<lparr>msg_id = 2, sender = 2, conversation = 1, content = ''hello'', timestamp = 5, is_read = False\<rparr>,
                      \<lparr>msg_id = 3, sender = 3, conversation = 2, content = ''memo'', timestamp = 3, is_read = False\<rparr>]\<rparr>,
            Response (Message_data
                 \<lparr>msg_id = 3, sender = 3, conversation = 2, content = ''memo'', timestamp = 3, is_read = False\<rparr>)
              HTTP_200_OK)
   \<and> map is_read (messages db0) = [False, False, True]"
  by code_simp

section \<open>Access is scoped to the caller's conversations\<close>

lemma foreign_key_differs:
  assumes "wf_db d" and "c \<in> set (conversations d)" and "u \<notin> participants c"
      and "conversation_has_participant d u k"
  shows "conv_id c \<noteq> k"
proof
  assume eq: "conv_id c = k"
  from assms(4) obtain c' where c': "c' \<in> set (conversations d)" "conv_id c' = k" "u \<in> participants c'"
    by (auto simp: conversation_has_participant_def list_ex_iff)
  have "distinct (map conv_id (conversations d))" using assms(1) by (simp add: wf_db_def)
  then have "c' = c"
    using c' assms(2) eq distinct_key_eq [of conv_id "conversations d" c' c] by simp
  with c' assms(3) show False by simp
qed

lemma has_participant_stored:
  "c' \<in> set (conversations d) \<Longrightarrow> u \<in> participants c' \<Longrightarrow>
     conversation_has_participant d u (conv_id c')"
  by (auto simp: conversation_has_participant_def list_ex_iff)

lemma untouched_same: "c \<in> set (conversations d) \<Longrightarrow> untouched d d c"
  by (simp add: untouched_def)

lemma untouched_update_conversation:
  "c \<in> set (conversations d) \<Longrightarrow> conv_id c \<noteq> k \<Longrightarrow> untouched d (update_conversation k f d) c"
  by (force simp: untouched_def update_conversation_def)

lemma filter_map_outside:
  "(\<And>x. x \<in> set xs \<Longrightarrow> g x = x \<or> (\<not> P x \<and> \<not> P (g x))) \<Longrightarrow> filter P (map g xs) = filter P xs"
proof (induction xs)
  case Nil
  then show ?case by simp
next
  case (Cons a xs)
  have "g a = a \<or> (\<not> P a \<and> \<not> P (g a))" using Cons.prems [of a] by simp
  moreover have "filter P (map g xs) = filter P xs"
    using Cons.prems by (intro Cons.IH) simp
  ultimately show ?case by auto
qed

lemma untouched_Message_save_new:
  assumes "c \<in> set (conversations d)" and "conv_id c \<noteq> conversation m"
      and "msg_id m = new_pk (map msg_id (messages d))"
  shows "untouched d (Message_save t m d) c"
proof -
  have "messages (Message_save t m d) = messages d @ [m]"
    using assms(3) new_pk_fresh [of "map msg_id (messages d)"] by (simp add: messages_Message_save)
  moreover have "c \<in> set (conversations (Message_save t m d))"
    using assms(1,2) by (force simp: conversations_Message_save)
  ultimately show ?thesis using assms(2) by (simp add: untouched_def)
qed

lemma untouched_Message_save_stored:
  assumes "c \<in> set (conversations d)" and "conv_id c \<noteq> conversation m"
      and "distinct (map msg_id (messages d))" and "m \<in> set (messages d)"
      and "msg_id m' = msg_id m" and "conversation m' = conversation m"
  shows "untouched d (Message_save t m' d) c"
proof -
  have in_tab: "msg_id m' \<in> set (map msg_id (messages d))"
    using assms(4,5) by force
  have msgs: "messages (Message_save t m' d)
      = map (\<lambda>x. if msg_id x = msg_id m' then m' else x) (messages d)"
    using in_tab by (simp only: messages_Message_save if_True)
  have "filter (\<lambda>x. conversation x = conv_id c) (map (\<lambda>x. if msg_id x = msg_id m' then m' else x) (messages d))
      = filter (\<lambda>x. conversation x = conv_id c) (messages d)"
  proof (rule filter_map_outside)
    fix x assume x: "x \<in> set (messages d)"
    show "(if msg_id x = msg_id m' then m' else x) = x
        \<or> (\<not> conversation x = conv_id c \<and> \<not> conversation (if msg_id x = msg_id m' then m' else x) = conv_id c)"
    proof (cases "msg_id x = msg_id m'")
      case True
      then have "x = m"
        using x assms(3,4,5) distinct_key_eq [of msg_id "messages d" x m] by simp
      then show ?thesis using True assms(2,6) by auto
    next
      case False
      then show ?thesis by simp
    qed
  qed
  moreover have "c \<in> set (conversations (Message_save t m' d))"
    using assms(1,2,6) by (force simp: conversations_Message_save)
  ultimately show ?thesis by (simp add: untouched_def msgs)
qed

lemma untouched_ConversationViewSet_create:
  assumes "c \<in> set (conversations d)" and "ConversationViewSet_create d clk u ids = Inr (d', r)"
  shows "untouched d d' c"
  using ConversationViewSet_create_changes [OF assms(2)] assms(1) by (auto simp: untouched_def)

lemma untouched_add_participant:
  assumes "wf_db d" and "c \<in> set (conversations d)" and "u \<notin> participants c"
      and "add_participant d u pk v = Inr (d', r)"
  shows "untouched d d' c"
  using add_participant_changes [OF assms(4)]
proof (elim disjE exE conjE)
  assume "d' = d"
  then show ?thesis using assms(2) by (simp add: untouched_same)
next
  fix conv w
  assume obj: "ConversationViewSet_get_object d u pk = Inr conv" and d': "d' = participants_add (conv_id conv) w d"
  from ConversationViewSet_get_object_Inr [OF obj]
  have "conversation_has_participant d u (conv_id conv)" using has_participant_stored [of conv d u] by simp
  then have "conv_id c \<noteq> conv_id conv" by (rule foreign_key_differs [OF assms(1,2,3)])
  then show ?thesis
    unfolding d' participants_add_def by (rule untouched_update_conversation [OF assms(2)])
qed

lemma untouched_remove_participant:
  assumes "wf_db d" and "c \<in> set (conversations d)" and "u \<notin> participants c"
      and "remove_participant d u pk v = Inr (d', r)"
  shows "untouched d d' c"
  using remove_participant_changes [OF assms(4)]
proof (elim disjE exE conjE)
  assume "d' = d"
  then show ?thesis using assms(2) by (simp add: untouched_same)
next
  fix conv w
  assume obj: "ConversationViewSet_get_object d u pk = Inr conv" and d': "d' = participants_remove (conv_id conv) w d"
  from ConversationViewSet_get_object_Inr [OF obj]
  have "conversation_has_participant d u (conv_id conv)" using has_participant_stored [of conv d u] by simp
  then have "conv_id c \<noteq> conv_id conv" by (rule foreign_key_differs [OF assms(1,2,3)])
  then show ?thesis
    unfolding d' participants_remove_def by (rule untouched_update_conversation [OF assms(2)])
qed

lemma untouched_MessageViewSet_create:
  assumes "wf_db d" and "c \<in> set (conversations d)" and "u \<notin> participants c"
      and "MessageViewSet_create d cf clk u payload = Inr (d', r)"
  shows "untouched d d' c"
  using MessageViewSet_create_cases [OF assms(4)]
proof (elim disjE exE conjE)
  assume "d' = d"
  then show ?thesis using assms(2) by (simp add: untouched_same)
next
  fix m
  assume stored: "conversation m \<in> set (map conv_id (conversations d))"
     and chk: "conversation m \<noteq> 0 \<longrightarrow> Conversation_objects_get d (conversation m) u \<noteq> None"
     and fresh: "msg_id m = new_pk (map msg_id (messages d))"
     and d': "d' = Message_save (clk 1) m d"
  have "conversation m \<noteq> 0"
    using stored assms(1) by (auto simp: wf_db_def list_all_iff)
  with chk obtain conv where "Conversation_objects_get d (conversation m) u = Some conv" by auto
  from Conversation_objects_get_Some [OF this]
  have "conversation_has_participant d u (conversation m)"
    using has_participant_stored [of conv d u] by auto
  then have "conv_id c \<noteq> conversation m" by (rule foreign_key_differs [OF assms(1,2,3)])
  then show ?thesis
    unfolding d' using fresh by (intro untouched_Message_save_new assms(2))
qed

lemma untouched_mark_as_read:
  assumes "wf_db d" and "c \<in> set (conversations d)" and "u \<notin> participants c"
      and "mark_as_read d clk u q pk = Inr (d', r)"
  shows "untouched d d' c"
proof -
  from mark_as_read_changes [OF assms(4)] obtain m where
    obj: "MessageViewSet_get_object d u q pk = Inr m" and d': "d' = Message_save (clk 0) (m\<lparr>is_read := True\<rparr>) d"
    by blast
  from MessageViewSet_get_object_Inr [OF obj]
  have m: "m \<in> set (messages d)" "conversation_has_participant d u (conversation m)" by simp_all
  have ne: "conv_id c \<noteq> conversation m" using m(2) by (rule foreign_key_differs [OF assms(1,2,3)])
  have dist: "distinct (map msg_id (messages d))" using assms(1) by (simp add: wf_db_def)
  show ?thesis
    unfolding d' by (rule untouched_Message_save_stored [OF assms(2) ne dist m(1)]) simp_all
qed

lemma untouched_mark_conversation_as_read:
  assumes "wf_db d" and "c \<in> set (conversations d)" and "u \<notin> participants c"
  shows "untouched d (fst (mark_conversation_as_read d u cid)) c"
  using mark_conversation_as_read_changes [of d u cid]
proof (elim disjE exE conjE)
  assume "fst (mark_conversation_as_read d u cid) = d"
  then show ?thesis using assms(2) by (simp add: untouched_same)
next
  fix conv k
  assume get: "Conversation_objects_get d k u = Some conv"
    and eq: "fst (mark_conversation_as_read d u cid)
             = d\<lparr>messages := map (\<lambda>m. if conversation m = conv_id conv \<and> sender m \<noteq> u
                                      then m\<lparr>is_read := True\<rparr> else m) (messages d)\<rparr>"
  from Conversation_objects_get_Some [OF get]
  have "conversation_has_participant d u (conv_id conv)"
    using has_participant_stored [of conv d u] by auto
  then have ne: "conv_id c \<noteq> conv_id conv" by (rule foreign_key_differs [OF assms(1,2,3)])
  have "filter (\<lambda>m. conversation m = conv_id c)
          (map (\<lambda>m. if conversation m = conv_id conv \<and> sender m \<noteq> u then m\<lparr>is_read := True\<rparr> else m) (messages d))
      = filter (\<lambda>m. conversation m = conv_id c) (messages d)"
    using ne by (intro filter_map_outside) auto
  then show ?thesis
    using assms(2) by (simp add: eq untouched_def)
qed

text \<open>
  The part of the access rule that holds of the code. For every user \<open>u\<close>, the
  conversation listing holds only stored conversations with \<open>u\<close> among the
  participants, the message listing holds only stored messages of such conversations, and
  \<open>get_object\<close> of either view finds only such rows. In a well-formed database, a
  conversation \<open>c\<close> that \<open>u\<close> does not take part in, and its messages, are left as
  they are by every operation written in the views: creating a conversation, adding and
  removing a participant, creating a message, marking a message read and marking a
  conversation read.
\<close>

theorem access_scoped_to_participants:
  "list_all (\<lambda>c'. c' \<in> set (conversations d) \<and> u \<in> participants c') (ConversationViewSet_get_queryset d u)
   \<and> list_all (\<lambda>m. m \<in> set (messages d) \<and> conversation_has_participant d u (conversation m))
        (MessageViewSet_get_queryset d u q)
   \<and> (ConversationViewSet_get_object d u pk = Inr c' \<longrightarrow> c' \<in> set (conversations d) \<and> u \<in> participants c')
   \<and> (MessageViewSet_get_object d u q pk = Inr m
        \<longrightarrow> m \<in> set (messages d) \<and> conversation_has_participant d u (conversation m))
   \<and> (wf_db d \<and> c \<in> set (conversations d) \<and> u \<notin> participants c \<longrightarrow>
        (ConversationViewSet_create d clk u ids = Inr (d', r) \<longrightarrow> untouched d d' c)
      \<and> (add_participant d u pk v = Inr (d', r) \<longrightarrow> untouched d d' c)
      \<and> (remove_participant d u pk v = Inr (d', r) \<longrightarrow> untouched d d' c)
      \<and> (MessageViewSet_create d cf clk u payload = Inr (d', r) \<longrightarrow> untouched d d' c)
      \<and> (mark_as_read d clk u q pk = Inr (d', r) \<longrightarrow> untouched d d' c)
      \<and> untouched d (fst (mark_conversation_as_read d u cid)) c)"
proof (intro conjI impI)
  show "list_all (\<lambda>c'. c' \<in> set (conversations d) \<and> u \<in> participants c') (ConversationViewSet_get_queryset d u)"
    by (simp add: list_all_iff set_ConversationViewSet_get_queryset)
  show "list_all (\<lambda>m. m \<in> set (messages d) \<and> conversation_has_participant d u (conversation m))
        (MessageViewSet_get_queryset d u q)"
    using set_MessageViewSet_get_queryset [of d u q] by (auto simp: list_all_iff)
next
  assume "ConversationViewSet_get_object d u pk = Inr c'"
  from ConversationViewSet_get_object_Inr [OF this]
  show "c' \<in> set (conversations d)" and "u \<in> participants c'" by simp_all
next
  assume "MessageViewSet_get_object d u q pk = Inr m"
  from MessageViewSet_get_object_Inr [OF this]
  show "m \<in> set (messages d)" and "conversation_has_participant d u (conversation m)" by simp_all
next
  assume h: "wf_db d \<and> c \<in> set (conversations d) \<and> u \<notin> participants c"
  then show "untouched d (fst (mark_conversation_as_read d u cid)) c"
    by (simp add: untouched_mark_conversation_as_read)
  { assume "ConversationViewSet_create d clk u ids = Inr (d', r)"
    with h show "untouched d d' c" by (simp add: untouched_ConversationViewSet_create) }
  { assume "add_participant d u pk v = Inr (d', r)"
    with h show "untouched d d' c" using untouched_add_participant by blast }
  { assume "remove_participant d u pk v = Inr (d', r)"
    with h show "untouched d d' c" using untouched_remove_participant by blast }
  { assume "MessageViewSet_create d cf clk u payload = Inr (d', r)"
    with h show "untouched d d' c" using untouched_MessageViewSet_create by blast }
  { assume "mark_as_read d clk u q pk = Inr (d', r)"
    with h show "untouched d d' c" using untouched_mark_as_read by blast }
qed

theorem access_scoped_to_participants_witness:
  "list_all (\<lambda>c'. c' \<in> set (conversations db0) \<and> 1 \<in> participants c') (ConversationViewSet_get_queryset db0 1)
   \<and> untouched db0
        (db0\<lparr>conversations := [\<lparr>conv_id = 1, participants = {1, 2}, created_at = 1, updated_at = 10\<rparr>,
                                \<lparr>conv_id = 2, participants = {3}, created_at = 2, updated_at = 3\<rparr>],
             messages := [\<lparr>msg_id = 1, sender = 1, conversation = 1, content = ''hi'', timestamp = 4, is_read = False\<rparr>,
                      \<lparr>msg_id = 2, sender = 2, conversation = 1, content = ''hello'', timestamp = 5, is_read = True\<rparr>,
                      \<lparr>msg_id = 3, sender = 3, conversation = 2, content = ''memo'', timestamp = 3, is_read = True\<rparr>]\<rparr>)
        \<lparr>conv_id = 2, participants = {3}, created_at = 2, updated_at = 3\<rparr>
   \<and> untouched db0 (fst (mark_conversation_as_read db0 1 (Some 1)))
        \<lparr>conv_id = 2, participants = {3}, created_at = 2, updated_at = 3\<rparr>"
proof -
  let ?c = "\<lparr>conv_id = 2, participants = {3}, created_at = 2, updated_at = (3::int)\<rparr>"
  let ?d' = "db0\<lparr>conversations := [\<lparr>conv_id = 1, participants = {1, 2}, created_at = 1, updated_at = 10\<rparr>,
                                \<lparr>conv_id = 2, participants = {3}, created_at = 2, updated_at = 3\<rparr>],
             messages := [\<lparr>msg_id = 1, sender = 1, conversation = 1, content = ''hi'', timestamp = 4, is_read = False\<rparr>,
                      \<lparr>msg_id = 2, sender = 2, conversation = 1, content = ''hello'', timestamp = 5, is_read = True\<rparr>,
                      \<lparr>msg_id = 3, sender = 3, conversation = 2, content = ''memo'', timestamp = 3, is_read = True\<rparr>]\<rparr>"
  let ?r = "Response (Dict [(''message'', ''Message marked as read'')]) HTTP_200_OK"
  have h: "wf_db db0 \<and> ?c \<in> set (conversations db0) \<and> 1 \<notin> participants ?c"
    by code_simp
  have run: "mark_as_read db0 (clock_from 10) 1 None 2 = Inr (?d', ?r)"
    by code_simp
  show ?thesis
    using access_scoped_to_participants [where d = db0 and u = 1 and c = ?c and clk = "clock_from 10"
        and q = None and pk = 2 and d' = ?d' and r = ?r and cid = "Some 1"] h run
    by blast
qed

text \<open>
  C1 does not hold of the code. \<open>MessageViewSet.create\<close> checks that the caller takes
  part in the conversation of the payload, but the update action of the same endpoint
  does not: \<open>conversation\<close> is a writable field of \<open>MessageSerializer\<close>, validated
  against all conversations. A PATCH of Alice on her message 1 with \<open>conversation = 2\<close>
  moves the message into conversation 2, where she does not take part, and stamps that
  conversation.
\<close>

theorem patch_moves_message_to_foreign_conversation:
  "MessageViewSet_partial_update db0 accept_nonblank (clock_from 10) 1 None 1
       \<lparr>key_sender = None, key_sender_id = None, key_conversation = Some 2,
        key_content = None, key_is_read = None\<rparr>
     = Inr (db0\<lparr>conversations := [\<lparr>conv_id = 1, participants = {1, 2}, created_at = 1, updated_at = 5\<rparr>,
                                \<lparr>conv_id = 2, participants = {3}, created_at = 2, updated_at = 10\<rparr>],
               messages := [\<lparr>msg_id = 1, sender = 1, conversation = 2, content = ''hi'', timestamp = 4, is_read = False\<rparr>,
                      \<lparr>msg_id = 2, sender = 2, conversation = 1, content = ''hello'', timestamp = 5, is_read = False\<rparr>,
                      \<lparr>msg_id = 3, sender = 3, conversation = 2, content = ''memo'', timestamp = 3, is_read = True\<rparr>]\<rparr>,
            Response (Message_data
                 \<lparr>msg_id = 1, sender = 1, conversation = 2, content = ''hi'', timestamp = 4, is_read = False\<rparr>)
              HTTP_200_OK)
   \<and> \<lparr>conv_id = 2, participants = {3}, created_at = 2, updated_at = 3\<rparr> \<in> set (conversations db0)
   \<and> 1 \<notin> participants \<lparr>conv_id = 2, participants = {3}, created_at = 2, updated_at = (3::int)\<rparr>
   \<and> wf_db db0"
  by code_simp

end
